theory Spec2Isabelle
  imports Complex_Main "HOL-Library.Multiset"
begin

section \<open>Weather volatility (components/VolatilityIndicator/index.tsx)\<close>

subsection \<open>In exact arithmetic\<close>

text \<open>
  The samples of a metric are a JavaScript \<open>number[]\<close>. Both callers of the scorer hand
  it arrays without \<open>null\<close> and without \<open>NaN\<close> (see the two views below). In this
  first model a sample is a \<^typ>\<open>real\<close> and arithmetic is exact; it serves the
  properties that do not turn on rounding (which metrics contribute, the sign of the
  score, what the views filter). The rounding and the overflow of IEEE doubles are in the
  second model, below. \<open>Array.prototype.reduce\<close> with an initial value is
  \<^const>\<open>foldl\<close>; \<open>Math.pow(x, 2)\<close> is \<open>x\<^sup>2\<close>; \<open>Math.sqrt\<close> is \<^const>\<open>sqrt\<close>.
\<close>

definition calculateVolatility :: "real list \<Rightarrow> real" where
  "calculateVolatility readings =
     (if length readings < 2 then 0
      else
        let mean = foldl (\<lambda>sum val. sum + val) 0 readings / real (length readings);
            variance = foldl (\<lambda>sum val. sum + (val - mean)\<^sup>2) 0 readings
                         / real (length readings)
        in sqrt variance)"

text \<open>
  The argument object of \<open>calculateWeatherVolatility\<close>: each property is optional
  (\<open>None\<close> is \<open>undefined\<close>).
\<close>

record metrics =
  temperature :: "real list option"
  humidity :: "real list option"
  pressure :: "real list option"
  windSpeed :: "real list option"

datatype metric = Temperature | Humidity | Pressure | WindSpeed

text \<open>The constant object \<open>weights\<close>, read by property name.\<close>

fun weights :: "metric \<Rightarrow> real" where
  "weights Temperature = 0.4"
| "weights Humidity = 0.2"
| "weights Pressure = 0.2"
| "weights WindSpeed = 0.2"

text \<open>
  One of the four guarded blocks
  \<open>if (metrics.x && metrics.x.length > 1) { volatilities.push(calculateVolatility(metrics.x) * weights.x) }\<close>:
  an array, even an empty one, is truthy; \<open>undefined\<close> is not. The calls of
  \<open>console.log\<close> do not touch the result and are left out.
\<close>

definition pushVolatility :: "metric \<Rightarrow> real list option \<Rightarrow> real list \<Rightarrow> real list" where
  "pushVolatility k series volatilities =
     (case series of
        None \<Rightarrow> volatilities
      | Some xs \<Rightarrow>
          if length xs > 1 then volatilities @ [calculateVolatility xs * weights k]
          else volatilities)"

definition calculateWeatherVolatility :: "metrics \<Rightarrow> real" where
  "calculateWeatherVolatility m =
     (let volatilities = [];
          volatilities = pushVolatility Temperature (temperature m) volatilities;
          volatilities = pushVolatility Humidity (humidity m) volatilities;
          volatilities = pushVolatility Pressure (pressure m) volatilities;
          volatilities = pushVolatility WindSpeed (windSpeed m) volatilities;
          totalVolatility =
            (if length volatilities > 0 then foldl (\<lambda>sum vol. sum + vol) 0 volatilities
             else 0)
      in totalVolatility)"

subsection \<open>In binary64 arithmetic\<close>

text \<open>
  A JavaScript number is an IEEE 754 binary64 value: a finite value, \<open>+Infinity\<close>,
  \<open>-Infinity\<close> or \<open>NaN\<close>. A finite double is carried as the real number it denotes.
  The sign of zero is not modelled: \<open>-0\<close> and \<open>+0\<close> are the one value \<open>Fin 0\<close>. The
  scorer divides only by \<open>readings.length\<close>, which is at least 2 there, so no result
  of it depends on the sign of a zero, and \<open>-0\<close> and \<open>+0\<close> are equal as scores.
\<close>

datatype double = Fin real | PInf | NInf | NaN64

text \<open>
  \<open>binade x\<close> is the exponent \<open>e\<close> of the binade of \<open>x\<close>: the one from \<open>-1022\<close> to
  \<open>1023\<close> with \<open>2 ^ e \<le> |x| < 2 ^ (e + 1)\<close>, the least one (\<open>-1022\<close>, where the subnormal
  numbers live) when \<open>|x|\<close> is smaller and the greatest when it is larger. The doubles of
  that binade are the integer multiples of \<open>2 ^ (e - 52)\<close>.
\<close>

fun binadeFrom :: "nat \<Rightarrow> int \<Rightarrow> real \<Rightarrow> int" where
  "binadeFrom 0 e x = e"
| "binadeFrom (Suc n) e x = (if \<bar>x\<bar> < 2 powi (e + 1) then e else binadeFrom n (e + 1) x)"

definition binade :: "real \<Rightarrow> int" where
  "binade x = binadeFrom 2045 (- 1022) x"

text \<open>Rounding to the nearest integer, a tie going to the even one.\<close>

definition roundHalfEven :: "real \<Rightarrow> int" where
  "roundHalfEven y =
     (let f = \<lfloor>y\<rfloor>; d = y - of_int f
      in if d < 1 / 2 then f
         else if 1 / 2 < d then f + 1
         else if even f then f else f + 1)"

text \<open>
  The rounding of IEEE 754 in its default mode (to nearest, ties to even), which every
  arithmetic operator of ECMAScript applies to the exact result: the nearest multiple of
  \<open>2 ^ (e - 52)\<close> in the binade of \<open>x\<close>, and an infinity when that is \<open>2 ^ 1024\<close> or more in
  magnitude. A decimal literal of the source, such as \<open>0.4\<close>, denotes \<open>round64 0.4\<close>.
\<close>

definition round64 :: "real \<Rightarrow> double" where
  "round64 x =
     (let q = 2 powi (binade x - 52);
          r = of_int (roundHalfEven (x / q)) * q
      in if 2 ^ 1024 \<le> \<bar>r\<bar> then (if 0 < x then PInf else NInf) else Fin r)"

text \<open>
  The operators \<open>+\<close>, \<open>-\<close>, \<open>*\<close> and \<open>/\<close> on numbers (ECMAScript \<open>Number::add\<close>,
  \<open>Number::subtract\<close>, \<open>Number::multiply\<close>, \<open>Number::divide\<close>): the exact result,
  rounded, with the IEEE rules for infinities and \<open>NaN\<close>.
\<close>

fun add64 :: "double \<Rightarrow> double \<Rightarrow> double" where
  "add64 (Fin x) (Fin y) = round64 (x + y)"
| "add64 NaN64 b = NaN64"
| "add64 a NaN64 = NaN64"
| "add64 PInf NInf = NaN64"
| "add64 NInf PInf = NaN64"
| "add64 PInf b = PInf"
| "add64 a PInf = PInf"
| "add64 NInf b = NInf"
| "add64 a NInf = NInf"

fun sub64 :: "double \<Rightarrow> double \<Rightarrow> double" where
  "sub64 (Fin x) (Fin y) = round64 (x - y)"
| "sub64 NaN64 b = NaN64"
| "sub64 a NaN64 = NaN64"
| "sub64 PInf PInf = NaN64"
| "sub64 NInf NInf = NaN64"
| "sub64 PInf b = PInf"
| "sub64 a PInf = NInf"
| "sub64 NInf b = NInf"
| "sub64 a NInf = PInf"

fun mul64 :: "double \<Rightarrow> double \<Rightarrow> double" where
  "mul64 (Fin x) (Fin y) = round64 (x * y)"
| "mul64 NaN64 b = NaN64"
| "mul64 a NaN64 = NaN64"
| "mul64 PInf (Fin y) = (if y = 0 then NaN64 else if 0 < y then PInf else NInf)"
| "mul64 NInf (Fin y) = (if y = 0 then NaN64 else if 0 < y then NInf else PInf)"
| "mul64 (Fin x) PInf = (if x = 0 then NaN64 else if 0 < x then PInf else NInf)"
| "mul64 (Fin x) NInf = (if x = 0 then NaN64 else if 0 < x then NInf else PInf)"
| "mul64 PInf PInf = PInf"
| "mul64 PInf NInf = NInf"
| "mul64 NInf PInf = NInf"
| "mul64 NInf NInf = PInf"

fun div64 :: "double \<Rightarrow> double \<Rightarrow> double" where
  "div64 (Fin x) (Fin y) =
     (if y = 0 then (if x = 0 then NaN64 else if 0 < x then PInf else NInf)
      else round64 (x / y))"
| "div64 NaN64 b = NaN64"
| "div64 a NaN64 = NaN64"
| "div64 PInf (Fin y) = (if 0 \<le> y then PInf else NInf)"
| "div64 NInf (Fin y) = (if 0 \<le> y then NInf else PInf)"
| "div64 (Fin x) PInf = Fin 0"
| "div64 (Fin x) NInf = Fin 0"
| "div64 a b = NaN64"

text \<open>
  \<open>Math.pow(x, 2)\<close> and \<open>Math.sqrt(x)\<close>. ECMAScript leaves the precision of both to the
  implementation; the model takes the correctly rounded results, which is what engines
  return: their \<open>pow\<close> gives \<open>x * x\<close> for the exponent 2, and the square root is the
  correctly rounded one of IEEE 754.
\<close>

fun pow64_2 :: "double \<Rightarrow> double" where
  "pow64_2 (Fin x) = round64 (x * x)"
| "pow64_2 PInf = PInf"
| "pow64_2 NInf = PInf"
| "pow64_2 NaN64 = NaN64"

fun sqrt64 :: "double \<Rightarrow> double" where
  "sqrt64 (Fin x) = (if x < 0 then NaN64 else round64 (sqrt x))"
| "sqrt64 PInf = PInf"
| "sqrt64 NInf = NaN64"
| "sqrt64 NaN64 = NaN64"

text \<open>
  \<open>calculateVolatility\<close> on doubles. \<open>readings.length\<close> is an integer below \<open>2 ^ 32\<close>,
  which is a double.
\<close>

definition calculateVolatility64 :: "double list \<Rightarrow> double" where
  "calculateVolatility64 readings =
     (if length readings < 2 then Fin 0
      else
        let mean = div64 (foldl (\<lambda>sum val. add64 sum val) (Fin 0) readings)
                     (Fin (real (length readings)));
            variance = div64 (foldl (\<lambda>sum val. add64 sum (pow64_2 (sub64 val mean))) (Fin 0) readings)
                         (Fin (real (length readings)))
        in sqrt64 variance)"

text \<open>The argument object, the weights and the scorer, as above, on doubles.\<close>

record metrics64 =
  temperature64 :: "double list option"
  humidity64 :: "double list option"
  pressure64 :: "double list option"
  windSpeed64 :: "double list option"

fun weights64 :: "metric \<Rightarrow> double" where
  "weights64 Temperature = round64 0.4"
| "weights64 Humidity = round64 0.2"
| "weights64 Pressure = round64 0.2"
| "weights64 WindSpeed = round64 0.2"

definition pushVolatility64 :: "metric \<Rightarrow> double list option \<Rightarrow> double list \<Rightarrow> double list" where
  "pushVolatility64 k series volatilities =
     (case series of
        None \<Rightarrow> volatilities
      | Some xs \<Rightarrow>
          if length xs > 1 then volatilities @ [mul64 (calculateVolatility64 xs) (weights64 k)]
          else volatilities)"

definition calculateWeatherVolatility64 :: "metrics64 \<Rightarrow> double" where
  "calculateWeatherVolatility64 m =
     (let volatilities = [];
          volatilities = pushVolatility64 Temperature (temperature64 m) volatilities;
          volatilities = pushVolatility64 Humidity (humidity64 m) volatilities;
          volatilities = pushVolatility64 Pressure (pressure64 m) volatilities;
          volatilities = pushVolatility64 WindSpeed (windSpeed64 m) volatilities;
          totalVolatility =
            (if length volatilities > 0 then foldl (\<lambda>sum vol. add64 sum vol) (Fin 0) volatilities
             else Fin 0)
      in totalVolatility)"

section \<open>The two views that call the scorer (pages Dashboard and Analytics)\<close>

text \<open>
  A numeric column of a \<open>weather_readings\<close> row is \<open>number | null\<close>. The Dashboard tests
  its values with \<open>isNaN\<close>, so \<open>NaN\<close> is kept apart from the other numbers; the outer
  \<open>option\<close> is \<open>null\<close>. Only the four columns that reach the scorer are modelled.
\<close>

datatype number = NaN | Value real

record weatherReading =
  temperature_c :: "number option"
  humidity_percent :: "number option"
  pressure_hpa :: "number option"
  wind_speed_ms :: "number option"

fun isNaN :: "number \<Rightarrow> bool" where
  "isNaN NaN = True"
| "isNaN (Value x) = False"

text \<open>The filter predicate of the Dashboard, \<open>temp !== null && !isNaN(temp)\<close>.\<close>

fun isNumber :: "number option \<Rightarrow> bool" where
  "isNumber None = False"
| "isNumber (Some x) = (\<not> isNaN x)"

text \<open>
  The filter is a type guard (\<open>temp is number\<close>): what it keeps is read as a
  \<open>number[]\<close>. On a filtered column \<open>numbers\<close> drops nothing.
\<close>

fun numbers :: "number option list \<Rightarrow> real list" where
  "numbers [] = []"
| "numbers (Some (Value x) # col) = x # numbers col"
| "numbers (_ # col) = numbers col"

text \<open>
  The block \<open>// Calculate volatility\<close> of \<open>Dashboard.fetchWeatherData\<close>, after a
  successful query. \<open>fetchWeatherData_call\<close> is the argument of its one call of
  \<open>calculateWeatherVolatility\<close>, and \<open>None\<close> on the branches that run
  \<open>setVolatility(0)\<close> instead; \<open>fetchWeatherData_volatility\<close> is the value handed to
  \<open>setVolatility\<close>. \<open>typedData\<close> may be \<open>null\<close>.
\<close>

definition fetchWeatherData_call :: "weatherReading list option \<Rightarrow> metrics option" where
  "fetchWeatherData_call typedData =
     (case typedData of
        None \<Rightarrow> None
      | Some rs \<Rightarrow>
          if length rs > 1 then
            let temperatures = numbers (filter isNumber (map temperature_c rs));
                humidities = numbers (filter isNumber (map humidity_percent rs));
                pressures = numbers (filter isNumber (map pressure_hpa rs));
                windSpeeds = numbers (filter isNumber (map wind_speed_ms rs))
            in if length temperatures > 1 then
                 Some \<lparr>temperature = Some temperatures,
                       humidity = (if length humidities > 1 then Some humidities else None),
                       pressure = (if length pressures > 1 then Some pressures else None),
                       windSpeed = (if length windSpeeds > 1 then Some windSpeeds else None)\<rparr>
               else None
          else None)"

definition fetchWeatherData_volatility :: "weatherReading list option \<Rightarrow> real" where
  "fetchWeatherData_volatility typedData =
     (case fetchWeatherData_call typedData of
        Some m \<Rightarrow> calculateWeatherVolatility m
      | None \<Rightarrow> 0)"

text \<open>
  The Analytics page maps each column with \<open>r.temperature_c || 0\<close>: the left operand
  is falsy when it is \<open>null\<close>, \<open>NaN\<close> or \<open>0\<close>, and the result is then \<open>0\<close>.
\<close>

fun orZero :: "number option \<Rightarrow> real" where
  "orZero None = 0"
| "orZero (Some NaN) = 0"
| "orZero (Some (Value x)) = x"

text \<open>The constant \<open>volatility\<close> of the Analytics component.\<close>

definition analyticsVolatility :: "weatherReading list \<Rightarrow> real" where
  "analyticsVolatility weatherData =
     (if length weatherData > 0 then
        calculateWeatherVolatility
          \<lparr>temperature = Some (map (\<lambda>r. orZero (temperature_c r)) weatherData),
           humidity = Some (map (\<lambda>r. orZero (humidity_percent r)) weatherData),
           pressure = Some (map (\<lambda>r. orZero (pressure_hpa r)) weatherData),
           windSpeed = Some (map (\<lambda>r. orZero (wind_speed_ms r)) weatherData)\<rparr>
      else 0)"

section \<open>Dates (the ECMAScript \<open>Date\<close> operations that the picker calls)\<close>

text \<open>
  A \<open>Date\<close> holds a time value: either an integer number of milliseconds since
  1970-01-01T00:00:00Z, at most \<open>8.64 \<times> 10 ^ 15\<close> in magnitude, or \<open>NaN\<close> (an Invalid
  Date). It is modelled as an \<^typ>\<open>int option\<close>, \<open>None\<close> for \<open>NaN\<close>. The functions
  below are the abstract operations of the ECMAScript specification (section "Date
  Objects"), with \<open>floor(a / b)\<close> as \<open>div\<close> and modulo as \<open>mod\<close>.
\<close>

definition msPerDay :: int where
  "msPerDay = 86400000"

definition Day :: "int \<Rightarrow> int" where
  "Day t = t div msPerDay"

definition TimeWithinDay :: "int \<Rightarrow> int" where
  "TimeWithinDay t = t mod msPerDay"

definition DaysInYear :: "int \<Rightarrow> int" where
  "DaysInYear y =
     (if y mod 4 \<noteq> 0 then 365
      else if y mod 100 \<noteq> 0 then 366
      else if y mod 400 \<noteq> 0 then 365
      else 366)"

definition DayFromYear :: "int \<Rightarrow> int" where
  "DayFromYear y =
     365 * (y - 1970) + (y - 1969) div 4 - (y - 1901) div 100 + (y - 1601) div 400"

definition TimeFromYear :: "int \<Rightarrow> int" where
  "TimeFromYear y = msPerDay * DayFromYear y"

text \<open>
  ECMAScript defines \<open>YearFromTime(t)\<close> as the largest integer \<open>y\<close> with
  \<open>TimeFromYear(y) \<le> t\<close>. The function below computes it from an estimate that is off
  by at most one year; lemma \<open>YearFromTime_largest\<close> shows that it is that year.
\<close>

definition YearFromTime :: "int \<Rightarrow> int" where
  "YearFromTime t =
     (let d = Day t; y = 1970 + (400 * d) div 146097
      in if DayFromYear (y + 1) \<le> d then y + 1
         else if d < DayFromYear y then y - 1
         else y)"

definition InLeapYear :: "int \<Rightarrow> int" where
  "InLeapYear t = (if DaysInYear (YearFromTime t) = 365 then 0 else 1)"

definition DayWithinYear :: "int \<Rightarrow> int" where
  "DayWithinYear t = Day t - DayFromYear (YearFromTime t)"

definition MonthFromTime :: "int \<Rightarrow> int" where
  "MonthFromTime t =
     (let d = DayWithinYear t; l = InLeapYear t
      in if d < 31 then 0
         else if d < 59 + l then 1
         else if d < 90 + l then 2
         else if d < 120 + l then 3
         else if d < 151 + l then 4
         else if d < 181 + l then 5
         else if d < 212 + l then 6
         else if d < 243 + l then 7
         else if d < 273 + l then 8
         else if d < 304 + l then 9
         else if d < 334 + l then 10
         else 11)"

definition DateFromTime :: "int \<Rightarrow> int" where
  "DateFromTime t =
     (let d = DayWithinYear t; l = InLeapYear t; m = MonthFromTime t
      in if m = 0 then d + 1
         else if m = 1 then d - 30
         else if m = 2 then d - 58 - l
         else if m = 3 then d - 89 - l
         else if m = 4 then d - 119 - l
         else if m = 5 then d - 150 - l
         else if m = 6 then d - 180 - l
         else if m = 7 then d - 211 - l
         else if m = 8 then d - 242 - l
         else if m = 9 then d - 272 - l
         else if m = 10 then d - 303 - l
         else d - 333 - l)"

definition MakeTime :: "int \<Rightarrow> int \<Rightarrow> int \<Rightarrow> int \<Rightarrow> int" where
  "MakeTime hour minute sec ms = hour * 3600000 + minute * 60000 + sec * 1000 + ms"

text \<open>
  \<open>monthStart ym mn\<close> is the number of days of year \<open>ym\<close> before its month \<open>mn\<close>
  (0 is January).
\<close>

definition monthStart :: "int \<Rightarrow> int \<Rightarrow> int" where
  "monthStart ym mn =
     (let l = (if DaysInYear ym = 365 then 0 else 1)
      in if mn = 0 then 0
         else if mn = 1 then 31
         else if mn = 2 then 59 + l
         else if mn = 3 then 90 + l
         else if mn = 4 then 120 + l
         else if mn = 5 then 151 + l
         else if mn = 6 then 181 + l
         else if mn = 7 then 212 + l
         else if mn = 8 then 243 + l
         else if mn = 9 then 273 + l
         else if mn = 10 then 304 + l
         else 334 + l)"

text \<open>
  \<open>TimeClip\<close>: a time beyond \<open>8.64 \<times> 10 ^ 15\<close> ms from the epoch is not a time value.
\<close>

definition maxTime :: int where
  "maxTime = 8640000000000000"

definition TimeClip :: "int \<Rightarrow> int option" where
  "TimeClip t = (if \<bar>t\<bar> > maxTime then None else Some t)"

text \<open>
  \<open>MakeDay(year, month, date)\<close> finds the time value \<open>t\<close> whose year, month and date are
  \<open>ym\<close>, \<open>mn\<close> and 1 (lemma \<open>MakeDay_first_of_month\<close> shows that the day number
  \<open>first\<close> below is the one of that \<open>t\<close>), gives \<open>NaN\<close> when there is no such time
  value, and otherwise adds \<open>date - 1\<close> to its day number, whatever the sign or size of
  \<open>date\<close>. \<open>MakeDate\<close> passes a \<open>NaN\<close> day on.
\<close>

definition MakeDay :: "int \<Rightarrow> int \<Rightarrow> int \<Rightarrow> int option" where
  "MakeDay year month date =
     (let ym = year + month div 12; mn = month mod 12;
          first = DayFromYear ym + monthStart ym mn
      in if \<bar>first * msPerDay\<bar> > maxTime then None else Some (first + date - 1))"

definition MakeDate :: "int option \<Rightarrow> int \<Rightarrow> int option" where
  "MakeDate day time = map_option (\<lambda>d. d * msPerDay + time) day"

text \<open>
  Local time. The offset of local time from UTC is the implementation-defined
  \<open>LocalTZA(t, isUTC)\<close> of ECMAScript, in milliseconds: \<open>LocalTZA t True\<close> is the offset
  in force at the UTC time \<open>t\<close>, and \<open>LocalTZA t False\<close> is the offset that the
  implementation picks for the local time \<open>t\<close>, which settles what a local time means
  that a daylight saving transition skips or repeats. The operations below take it as
  their first argument. \<open>fixedZone offset\<close> is a zone without transitions, such as UTC
  (offset 0) or a zone that keeps UTC-5 all year (offset \<open>-18000000\<close>).
\<close>

definition LocalTime :: "(int \<Rightarrow> bool \<Rightarrow> int) \<Rightarrow> int \<Rightarrow> int" where
  "LocalTime LocalTZA t = t + LocalTZA t True"

definition UTC :: "(int \<Rightarrow> bool \<Rightarrow> int) \<Rightarrow> int \<Rightarrow> int" where
  "UTC LocalTZA t = t - LocalTZA t False"

definition fixedZone :: "int \<Rightarrow> int \<Rightarrow> bool \<Rightarrow> int" where
  "fixedZone offset t isUTC = offset"

text \<open>
  The methods \<open>getDate()\<close>, \<open>getFullYear()\<close>, \<open>setHours(hour, min, sec, ms)\<close> and
  \<open>setDate(date)\<close> of \<open>Date.prototype\<close>. A getter of an Invalid Date returns \<open>NaN\<close>;
  a setter leaves an Invalid Date invalid, makes the date invalid when its argument is
  \<open>NaN\<close>, and clips its result. The setters return the new time value of the object.
\<close>

definition getDate :: "(int \<Rightarrow> bool \<Rightarrow> int) \<Rightarrow> int option \<Rightarrow> int option" where
  "getDate tz d = map_option (\<lambda>t. DateFromTime (LocalTime tz t)) d"

definition getFullYear :: "(int \<Rightarrow> bool \<Rightarrow> int) \<Rightarrow> int option \<Rightarrow> int option" where
  "getFullYear tz d = map_option (\<lambda>t. YearFromTime (LocalTime tz t)) d"

definition setHours ::
  "(int \<Rightarrow> bool \<Rightarrow> int) \<Rightarrow> int option \<Rightarrow> int \<Rightarrow> int \<Rightarrow> int \<Rightarrow> int \<Rightarrow> int option" where
  "setHours tz d hour minute sec ms =
     (case d of
        None \<Rightarrow> None
      | Some t0 \<Rightarrow>
          let t = LocalTime tz t0;
              date = MakeDate (Some (Day t)) (MakeTime hour minute sec ms)
          in Option.bind date (\<lambda>l. TimeClip (UTC tz l)))"

definition setDate :: "(int \<Rightarrow> bool \<Rightarrow> int) \<Rightarrow> int option \<Rightarrow> int option \<Rightarrow> int option" where
  "setDate tz d date =
     (case (d, date) of
        (Some t0, Some dt) \<Rightarrow>
          let t = LocalTime tz t0;
              newDate = MakeDate (MakeDay (YearFromTime t) (MonthFromTime t) dt) (TimeWithinDay t)
          in Option.bind newDate (\<lambda>l. TimeClip (UTC tz l))
      | _ \<Rightarrow> None)"

text \<open>
  The constructor call \<open>new Date(year, month, date)\<close>: local midnight of that day. A
  year from 0 to 99 stands for 1900 + year.
\<close>

definition newDate :: "(int \<Rightarrow> bool \<Rightarrow> int) \<Rightarrow> int option \<Rightarrow> int \<Rightarrow> int \<Rightarrow> int option" where
  "newDate tz year month date =
     (case year of
        None \<Rightarrow> None
      | Some y \<Rightarrow>
          let yr = (if 0 \<le> y \<and> y \<le> 99 then 1900 + y else y);
              finalDate = MakeDate (MakeDay yr month date) (MakeTime 0 0 0 0)
          in Option.bind finalDate (\<lambda>l. TimeClip (UTC tz l)))"

text \<open>
  The constructor call \<open>new Date(e.target.value)\<close> on the value of an
  \<open><input type="date">\<close>. That value is the empty string when the field holds no
  complete date (the user has cleared it, or a part of it) and a string \<open>yyyy-mm-dd\<close>
  otherwise, here the three numbers of it. The empty string gives an Invalid Date. A
  date-only string is read by \<open>Date.parse\<close> as midnight UTC of that day, not as local
  midnight. ECMAScript fixes the result for the dates of the calendar with a year from 0
  to 9999 and asks for \<open>NaN\<close> when a field is out of range; other strings, which the
  input element does not produce for such years, are read here as an Invalid Date too.
\<close>

definition DaysInMonth :: "int \<Rightarrow> int \<Rightarrow> int" where
  "DaysInMonth y m =
     (if m = 2 then (if DaysInYear y = 365 then 28 else 29)
      else if m = 4 \<or> m = 6 \<or> m = 9 \<or> m = 11 then 30
      else 31)"

datatype dateValue = EmptyValue | DateValue int int int

fun parseDate :: "dateValue \<Rightarrow> int option" where
  "parseDate EmptyValue = None"
| "parseDate (DateValue y m d) =
     (if 0 \<le> y \<and> y \<le> 9999 \<and> 1 \<le> m \<and> m \<le> 12 \<and> 1 \<le> d \<and> d \<le> DaysInMonth y m
      then Option.bind (MakeDate (MakeDay y (m - 1) d) (MakeTime 0 0 0 0)) TimeClip
      else None)"

section \<open>The date range picker (component DateRangePicker, in components/ui/Tooltip.tsx)\<close>

text \<open>
  The state of the component: its three \<open>useState\<close> cells. A \<open>Date\<close> is its time value.
\<close>

record pickerState =
  startDate :: "int option"
  endDate :: "int option"
  rangePreset :: string

text \<open>
  \<open>applyPreset(preset)\<close>. Each \<open>new Date()\<close> reads the clock: \<open>now1\<close> is the reading that
  becomes \<open>today\<close> and \<open>now2\<close> the later one that becomes \<open>start\<close>. The result is the
  state after the three setters together with the arguments of the call of \<open>onChange\<close>;
  on the \<open>default\<close> branch of the \<open>switch\<close> the function returns before them, the state
  is unchanged and there is no call.
\<close>

definition applyPreset ::
  "(int \<Rightarrow> bool \<Rightarrow> int) \<Rightarrow> int \<Rightarrow> int \<Rightarrow> string \<Rightarrow> pickerState
     \<Rightarrow> pickerState \<times> (int option \<times> int option) option" where
  "applyPreset tz now1 now2 preset s =
     (let today = setHours tz (Some now1) 23 59 59 999;
          start = setHours tz (Some now2) 0 0 0 0;
          switch =
            (if preset = ''last7days''
               then Some (setDate tz start (map_option (\<lambda>d. d - 7) (getDate tz today)))
             else if preset = ''last30days''
               then Some (setDate tz start (map_option (\<lambda>d. d - 30) (getDate tz today)))
             else if preset = ''last90days''
               then Some (setDate tz start (map_option (\<lambda>d. d - 90) (getDate tz today)))
             else if preset = ''ytd''
               then Some (newDate tz (getFullYear tz today) 0 1)
             else None)
      in case switch of
           None \<Rightarrow> (s, None)
         | Some start \<Rightarrow>
             (s\<lparr>startDate := start, endDate := today, rangePreset := preset\<rparr>,
              Some (start, today)))"

text \<open>
  The two change handlers of the date inputs, on the value of the input: the new state
  and the arguments of the call of \<open>onChange\<close>.
\<close>

definition handleStartDateChange ::
  "(int \<Rightarrow> bool \<Rightarrow> int) \<Rightarrow> dateValue \<Rightarrow> pickerState \<Rightarrow> pickerState \<times> (int option \<times> int option)" where
  "handleStartDateChange tz v s =
     (let newStartDate = setHours tz (parseDate v) 0 0 0 0
      in (s\<lparr>startDate := newStartDate, rangePreset := ''custom''\<rparr>, (newStartDate, endDate s)))"

definition handleEndDateChange ::
  "(int \<Rightarrow> bool \<Rightarrow> int) \<Rightarrow> dateValue \<Rightarrow> pickerState \<Rightarrow> pickerState \<times> (int option \<times> int option)" where
  "handleEndDateChange tz v s =
     (let newEndDate = setHours tz (parseDate v) 23 59 59 999
      in (s\<lparr>endDate := newEndDate, rangePreset := ''custom''\<rparr>, (startDate s, newEndDate)))"

text \<open>
  \<open>formatDateForInput(date)\<close> is \<open>date.toISOString().split('T')[0]\<close>: the year, month
  and day of the time value in UTC. \<open>toISOString\<close> throws a \<open>RangeError\<close> on an Invalid
  Date.
\<close>

datatype error = RangeError

definition formatDateForInput :: "int option \<Rightarrow> error + (int \<times> int \<times> int)" where
  "formatDateForInput date =
     (case date of
        None \<Rightarrow> Inl RangeError
      | Some t \<Rightarrow> Inr (YearFromTime t, MonthFromTime t + 1, DateFromTime t))"

text \<open>
  Rendering. The returned JSX formats \<open>startDate\<close> and \<open>endDate\<close> for the \<open>value\<close>,
  \<open>min\<close> and \<open>max\<close> attributes of the two inputs. Nothing in the component or above it
  catches an exception, so a throw during rendering unmounts the component: the result
  is the error, and otherwise the state that is displayed.
\<close>

definition render :: "pickerState \<Rightarrow> error + pickerState" where
  "render s =
     (case formatDateForInput (startDate s) of
        Inl e \<Rightarrow> Inl e
      | Inr _ \<Rightarrow>
          (case formatDateForInput (endDate s) of
             Inl e \<Rightarrow> Inl e
           | Inr _ \<Rightarrow> Inr s))"

text \<open>The buttons: label and value. Each button calls \<open>applyPreset\<close> on its value.\<close>

definition presets :: "(string \<times> string) list" where
  "presets =
     [(''Last 7 Days'', ''last7days''), (''Last 30 Days'', ''last30days''),
      (''Last 90 Days'', ''last90days''), (''Year to Date'', ''ytd'')]"

text \<open>
  Mounting. The initialisers of the three \<open>useState\<close> cells read the clock twice
  (\<open>now1\<close>, \<open>now2\<close>); the component renders; then the effect runs
  \<open>applyPreset(defaultRange)\<close>, which reads the clock twice more (\<open>now3\<close>, \<open>now4\<close>), and the
  component renders again if the state was set. The prop \<open>defaultRange\<close> defaults to
  \<open>'last7days'\<close> when the caller leaves it out (\<open>None\<close>); both pages pass
  \<open>"last7days"\<close>.
\<close>

definition initialState :: "(int \<Rightarrow> bool \<Rightarrow> int) \<Rightarrow> int \<Rightarrow> int \<Rightarrow> string \<Rightarrow> pickerState" where
  "initialState tz now1 now2 defaultRange =
     \<lparr>startDate = setDate tz (Some now1) (map_option (\<lambda>d. d - 7) (getDate tz (Some now1))),
      endDate = Some now2,
      rangePreset = defaultRange\<rparr>"

definition DateRangePicker ::
  "(int \<Rightarrow> bool \<Rightarrow> int) \<Rightarrow> int \<Rightarrow> int \<Rightarrow> int \<Rightarrow> int \<Rightarrow> string option \<Rightarrow> error + pickerState" where
  "DateRangePicker tz now1 now2 now3 now4 defaultRangeProp =
     (let defaultRange = (case defaultRangeProp of None \<Rightarrow> ''last7days'' | Some r \<Rightarrow> r)
      in case render (initialState tz now1 now2 defaultRange) of
           Inl e \<Rightarrow> Inl e
         | Inr s \<Rightarrow>
             (case applyPreset tz now3 now4 defaultRange s of
                (s', None) \<Rightarrow> Inr s'
              | (s', Some call) \<Rightarrow> render s'))"

text \<open>
  The events of the mounted component: a click on a button, or a change of one of the
  two inputs to the given value. The handler runs, and the component renders the new
  state.
\<close>

datatype event = PresetClick string | StartDateInput dateValue | EndDateInput dateValue

fun step ::
  "(int \<Rightarrow> bool \<Rightarrow> int) \<Rightarrow> int \<Rightarrow> int \<Rightarrow> event \<Rightarrow> pickerState \<Rightarrow> error + pickerState" where
  "step tz now1 now2 (PresetClick p) s =
     (case applyPreset tz now1 now2 p s of
        (s', None) \<Rightarrow> Inr s'
      | (s', Some call) \<Rightarrow> render s')"
| "step tz now1 now2 (StartDateInput v) s = render (fst (handleStartDateChange tz v s))"
| "step tz now1 now2 (EndDateInput v) s = render (fst (handleEndDateChange tz v s))"

section \<open>The vocabulary of the specification\<close>

subsection \<open>The statistic\<close>

text \<open>
  The population standard deviation of the specification: the mean is the arithmetic
  mean of the samples, the variance is the mean of the squared deviations from it
  (dividing by \<open>N\<close>, not \<open>N - 1\<close>), and the result is the square root of the variance.
\<close>

definition arithmeticMean :: "real list \<Rightarrow> real" where
  "arithmeticMean s = sum_list s / real (length s)"

definition populationVariance :: "real list \<Rightarrow> real" where
  "populationVariance s =
     sum_list (map (\<lambda>x. (x - arithmeticMean s)\<^sup>2) s) / real (length s)"

definition populationStdDev :: "real list \<Rightarrow> real" where
  "populationStdDev s = sqrt (populationVariance s)"

text \<open>The input in which only metric \<open>k\<close> is present, holding the samples \<open>s\<close>.\<close>

fun onlyMetric :: "metric \<Rightarrow> real list \<Rightarrow> metrics" where
  "onlyMetric Temperature s =
     \<lparr>temperature = Some s, humidity = None, pressure = None, windSpeed = None\<rparr>"
| "onlyMetric Humidity s =
     \<lparr>temperature = None, humidity = Some s, pressure = None, windSpeed = None\<rparr>"
| "onlyMetric Pressure s =
     \<lparr>temperature = None, humidity = None, pressure = Some s, windSpeed = None\<rparr>"
| "onlyMetric WindSpeed s =
     \<lparr>temperature = None, humidity = None, pressure = None, windSpeed = Some s\<rparr>"

text \<open>
  The contribution of one metric to the score, in the specification's words: a metric
  that is absent or has fewer than two samples counts as zero, any other as its weight
  times its standard deviation.
\<close>

definition contribution :: "metric \<Rightarrow> real list option \<Rightarrow> real" where
  "contribution k series =
     (case series of
        None \<Rightarrow> 0
      | Some xs \<Rightarrow> if length xs < 2 then 0 else weights k * populationStdDev xs)"

text \<open>A series that is absent or holds fewer than two samples.\<close>

definition insufficient :: "real list option \<Rightarrow> bool" where
  "insufficient series = (case series of None \<Rightarrow> True | Some xs \<Rightarrow> length xs < 2)"

text \<open>A reading with the given temperature and humidity and no other measurement.\<close>

definition reading :: "number option \<Rightarrow> number option \<Rightarrow> weatherReading" where
  "reading t h =
     \<lparr>temperature_c = t, humidity_percent = h, pressure_hpa = None, wind_speed_ms = None\<rparr>"

subsection \<open>The statistic on doubles\<close>

text \<open>
  The same statistic where every operation is the one on doubles: \<open>naiveSum xs k\<close> adds
  the first \<open>k\<close> elements of \<open>xs\<close> to 0 one after the other, from the first on; the mean
  is that sum of the samples divided by their number, the variance is that sum of the
  squared deviations from the mean divided by their number, and the standard deviation
  is the square root of the variance.
\<close>

fun naiveSum :: "double list \<Rightarrow> nat \<Rightarrow> double" where
  "naiveSum xs 0 = Fin 0"
| "naiveSum xs (Suc k) = add64 (naiveSum xs k) (xs ! k)"

definition mean64 :: "double list \<Rightarrow> double" where
  "mean64 s = div64 (naiveSum s (length s)) (Fin (real (length s)))"

definition variance64 :: "double list \<Rightarrow> double" where
  "variance64 s =
     div64 (naiveSum (map (\<lambda>x. pow64_2 (sub64 x (mean64 s))) s) (length s))
       (Fin (real (length s)))"

definition populationStdDev64 :: "double list \<Rightarrow> double" where
  "populationStdDev64 s = sqrt64 (variance64 s)"

fun onlyMetric64 :: "metric \<Rightarrow> double list \<Rightarrow> metrics64" where
  "onlyMetric64 Temperature s =
     \<lparr>temperature64 = Some s, humidity64 = None, pressure64 = None, windSpeed64 = None\<rparr>"
| "onlyMetric64 Humidity s =
     \<lparr>temperature64 = None, humidity64 = Some s, pressure64 = None, windSpeed64 = None\<rparr>"
| "onlyMetric64 Pressure s =
     \<lparr>temperature64 = None, humidity64 = None, pressure64 = Some s, windSpeed64 = None\<rparr>"
| "onlyMetric64 WindSpeed s =
     \<lparr>temperature64 = None, humidity64 = None, pressure64 = None, windSpeed64 = Some s\<rparr>"

text \<open>
  A value of the type \<^typ>\<open>double\<close> that is a double: an infinity, \<open>NaN\<close>, or a real
  that rounding leaves unchanged. The elements of a \<open>number[]\<close> are such values.
\<close>

fun isDouble :: "double \<Rightarrow> bool" where
  "isDouble (Fin x) = (round64 x = Fin x)"
| "isDouble _ = True"

subsection \<open>Ranges and calendar days\<close>

text \<open>
  A range \<open>(start, end)\<close> is ordered when both bounds are dates and the start is not
  after the end.
\<close>

definition notAfter :: "int option \<Rightarrow> int option \<Rightarrow> bool" where
  "notAfter a b = (case (a, b) of (Some x, Some y) \<Rightarrow> x \<le> y | _ \<Rightarrow> False)"

text \<open>
  What the clock on the wall shows at the instant \<open>t\<close>: the local year, month (0 is
  January), day of the month and milliseconds since local midnight.
\<close>

definition localFields :: "(int \<Rightarrow> bool \<Rightarrow> int) \<Rightarrow> int \<Rightarrow> int \<times> int \<times> int \<times> int" where
  "localFields tz t =
     (let l = LocalTime tz t in (YearFromTime l, MonthFromTime l, DateFromTime l, TimeWithinDay l))"

section \<open>Properties of the scorer\<close>

lemma foldl_add_sum_list: "foldl (\<lambda>sum val. sum + f val) a xs = a + sum_list (map f xs)"
  for a :: real
  by (induction xs arbitrary: a) simp_all

lemma foldl_plain_sum_list: "foldl (\<lambda>sum val. sum + val) a xs = a + sum_list xs"
  for a :: real
  using foldl_add_sum_list [of "\<lambda>x. x" a xs] by simp

lemma calculateVolatility_refines:
  "2 \<le> length s \<Longrightarrow> calculateVolatility s = populationStdDev s"
  by (simp add: calculateVolatility_def populationStdDev_def populationVariance_def
      arithmeticMean_def foldl_add_sum_list foldl_plain_sum_list Let_def)

lemma populationVariance_nonneg: "0 \<le> populationVariance s"
  unfolding populationVariance_def
  by (intro divide_nonneg_nonneg sum_list_nonneg) auto

lemma calculateVolatility_nonneg: "0 \<le> calculateVolatility s"
proof (cases "2 \<le> length s")
  case True
  then show ?thesis
    by (simp add: calculateVolatility_refines populationStdDev_def populationVariance_nonneg)
next
  case False
  then show ?thesis by (simp add: calculateVolatility_def)
qed

lemma pushVolatility_sum:
  "sum_list (pushVolatility k series vs) = sum_list vs + contribution k series"
  by (cases series)
    (simp_all add: pushVolatility_def contribution_def calculateVolatility_refines)

lemma calculateWeatherVolatility_sum:
  "calculateWeatherVolatility m =
     contribution Temperature (temperature m) + contribution Humidity (humidity m)
     + contribution Pressure (pressure m) + contribution WindSpeed (windSpeed m)"
proof -
  define vs where "vs =
    pushVolatility WindSpeed (windSpeed m)
      (pushVolatility Pressure (pressure m)
        (pushVolatility Humidity (humidity m)
          (pushVolatility Temperature (temperature m) [])))"
  have total: "calculateWeatherVolatility m = sum_list vs"
    by (cases vs) (simp_all add: calculateWeatherVolatility_def vs_def foldl_plain_sum_list)
  show ?thesis
    unfolding total vs_def by (simp add: pushVolatility_sum)
qed

lemma contribution_nonneg: "0 \<le> contribution k series"
  by (cases series; cases k)
    (simp_all add: contribution_def populationStdDev_def populationVariance_nonneg)

lemma arithmeticMean_mset: "mset xs = mset ys \<Longrightarrow> arithmeticMean xs = arithmeticMean ys"
  unfolding arithmeticMean_def
  by (metis mset_eq_length sum_mset_sum_list)

lemma populationStdDev_mset:
  assumes "mset xs = mset ys"
  shows "populationStdDev xs = populationStdDev ys"
proof -
  let ?f = "\<lambda>x. (x - arithmeticMean xs)\<^sup>2"
  have "mset (map ?f xs) = mset (map ?f ys)"
    using assms by (metis mset_map)
  then have "sum_list (map ?f xs) = sum_list (map ?f ys)"
    by (metis sum_mset_sum_list)
  then show ?thesis
    using assms arithmeticMean_mset [OF assms] mset_eq_length [OF assms]
    by (simp add: populationStdDev_def populationVariance_def)
qed

lemma populationStdDev_pair: "0 \<le> c \<Longrightarrow> populationStdDev [0, c] = c / 2"
  unfolding populationStdDev_def populationVariance_def arithmeticMean_def
  by (rule real_sqrt_unique) (simp_all add: power2_eq_square field_simps)



text \<open>
  C7: the score is never negative, and it is not clamped: temperatures \<open>[0, 100]\<close>
  alone score 20, above 10, and every bound \<open>B\<close> is exceeded by some input.
\<close>

theorem score_nonneg_unbounded:
  "0 \<le> calculateWeatherVolatility m
   \<and> 10 < calculateWeatherVolatility
        \<lparr>temperature = Some [0, 100], humidity = None, pressure = None, windSpeed = None\<rparr>
   \<and> (\<exists>m'. B < calculateWeatherVolatility m')"
proof (intro conjI)
  show "0 \<le> calculateWeatherVolatility m"
    unfolding calculateWeatherVolatility_sum
    by (intro add_nonneg_nonneg contribution_nonneg)
  show "10 < calculateWeatherVolatility
        \<lparr>temperature = Some [0, 100], humidity = None, pressure = None, windSpeed = None\<rparr>"
    by (simp add: calculateWeatherVolatility_sum contribution_def populationStdDev_pair)
  have "B < calculateWeatherVolatility (onlyMetric Temperature [0, 5 * \<bar>B\<bar> + 5])"
    by (simp add: calculateWeatherVolatility_sum contribution_def populationStdDev_pair)
  then show "\<exists>m'. B < calculateWeatherVolatility m'" ..
qed

section \<open>Properties of the two views\<close>

lemma numbers_filter: "length (numbers (filter isNumber col)) = length (filter isNumber col)"
proof (induction col)
  case Nil
  show ?case by simp
next
  case (Cons v col)
  then show ?case
  proof (cases v)
    case None
    with Cons show ?thesis by simp
  next
    case (Some x)
    with Cons show ?thesis by (cases x) simp_all
  qed
qed

lemma populationStdDev_constant_pair: "populationStdDev [c, c] = 0"
  by (simp add: populationStdDev_def populationVariance_def arithmeticMean_def)

text \<open>
  C6: null samples are to be filtered out before the statistics are computed, and never
  to count as the value 0. The Dashboard does filter them. The Analytics page does not:
  for the two readings with temperatures 10 and \<open>null\<close> (nothing else measured) its
  score is 2, the score of the temperatures 10 and 0, while the Dashboard, which drops
  the \<open>null\<close>, shows 0 for the same readings.
\<close>

theorem analytics_null_counted_as_zero:
  "analyticsVolatility [reading (Some (Value 10)) None, reading None None] = 2
   \<and> analyticsVolatility [reading (Some (Value 10)) None, reading None None]
       = analyticsVolatility
           [reading (Some (Value 10)) (Some (Value 0)), reading (Some (Value 0)) (Some (Value 0))]
   \<and> fetchWeatherData_volatility (Some [reading (Some (Value 10)) None, reading None None]) = 0"
proof -
  have p: "populationStdDev [10, 0] = 5"
    using populationStdDev_mset [of "[10, 0]" "[0, 10]"] populationStdDev_pair [of 10] by simp
  show ?thesis
    by (simp add: analyticsVolatility_def fetchWeatherData_volatility_def
        fetchWeatherData_call_def reading_def calculateWeatherVolatility_sum contribution_def
        populationStdDev_constant_pair p)
qed

text \<open>
  C10: when fewer than two temperature samples of the fetched readings are neither
  \<open>null\<close> nor \<open>NaN\<close>, the Dashboard does not call the scorer and shows the volatility
  0; the scorer is called only with at least two such temperatures. This holds even when
  another metric has two valid samples: for two readings with humidities 40 and 60 and no
  valid temperature the Dashboard shows 0, although the scorer gives 2 for those
  humidities alone.
\<close>

theorem dashboard_requires_temperature:
  assumes "length (filter isNumber (map temperature_c rs)) < 2"
  shows "fetchWeatherData_call (Some rs) = None
       \<and> fetchWeatherData_volatility (Some rs) = 0
       \<and> (fetchWeatherData_call typedData = Some m \<longrightarrow>
            (\<exists>rs'. typedData = Some rs'
               \<and> 2 \<le> length (filter isNumber (map temperature_c rs'))))
       \<and> fetchWeatherData_volatility
            (Some [reading None (Some (Value 40)), reading (Some NaN) (Some (Value 60))]) = 0
       \<and> calculateWeatherVolatility
            \<lparr>temperature = Some [], humidity = Some [40, 60], pressure = None, windSpeed = None\<rparr>
           = 2"
proof (intro conjI impI)
  show c: "fetchWeatherData_call (Some rs) = None"
    using assms by (simp add: fetchWeatherData_call_def numbers_filter Let_def)
  show "fetchWeatherData_volatility (Some rs) = 0"
    by (simp add: fetchWeatherData_volatility_def c)
  show "\<exists>rs'. typedData = Some rs' \<and> 2 \<le> length (filter isNumber (map temperature_c rs'))"
    if "fetchWeatherData_call typedData = Some m"
    using that
    by (cases typedData)
      (auto simp: fetchWeatherData_call_def numbers_filter Let_def split: if_splits)
  show "fetchWeatherData_volatility
        (Some [reading None (Some (Value 40)), reading (Some NaN) (Some (Value 60))]) = 0"
    by (simp add: fetchWeatherData_volatility_def fetchWeatherData_call_def reading_def)
  have "populationStdDev [40, 60] = 10"
    unfolding populationStdDev_def populationVariance_def arithmeticMean_def
    by (rule real_sqrt_unique) simp_all
  then show "calculateWeatherVolatility
      \<lparr>temperature = Some [], humidity = Some [40, 60], pressure = None, windSpeed = None\<rparr> = 2"
    by (simp add: calculateWeatherVolatility_sum contribution_def)
qed

theorem dashboard_requires_temperature_witness:
  "length (filter isNumber (map temperature_c
      [reading None (Some (Value 40)), reading (Some NaN) (Some (Value 60))])) < 2
   \<and> fetchWeatherData_call
        (Some [reading None (Some (Value 40)), reading (Some NaN) (Some (Value 60))]) = None"
  using dashboard_requires_temperature
    [of "[reading None (Some (Value 40)), reading (Some NaN) (Some (Value 60))]"]
  by (simp add: reading_def)

section \<open>Properties of rounding\<close>

subsection \<open>Powers of two and binades\<close>

lemma two_powi_mono: "a \<le> b \<Longrightarrow> (2::real) powi a \<le> 2 powi b"
  by (rule power_int_increasing) simp_all

lemma two_powi_pos [simp]: "0 < (2::real) powi a"
  by (rule zero_less_power_int) simp

lemma two_powi_Suc: "(2::real) powi (a + 1) = 2 * 2 powi a"
  by (rule power_int_add_1') simp

lemma binadeFrom_eq:
  assumes "e0 \<le> e" and "e - e0 \<le> int n"
    and "e0 < e \<longrightarrow> 2 powi e \<le> \<bar>x\<bar>" and "\<bar>x\<bar> < 2 powi (e + 1)"
  shows "binadeFrom n e0 x = e"
  using assms
proof (induction n arbitrary: e0)
  case 0
  then show ?case by simp
next
  case (Suc n)
  show ?case
  proof (cases "\<bar>x\<bar> < 2 powi (e0 + 1)")
    case True
    have "e0 = e"
    proof (rule ccontr)
      assume "e0 \<noteq> e"
      with Suc.prems have lt: "e0 + 1 \<le> e" and "2 powi e \<le> \<bar>x\<bar>" by simp_all
      with two_powi_mono [OF lt] True show False by simp
    qed
    with True show ?thesis by simp
  next
    case False
    have "e0 < e"
    proof (rule ccontr)
      assume "\<not> e0 < e"
      then have "e + 1 \<le> e0 + 1" by simp
      from two_powi_mono [OF this] Suc.prems(4) False show False by simp
    qed
    with Suc.prems have "binadeFrom n (e0 + 1) x = e"
      by (intro Suc.IH) simp_all
    with False show ?thesis by simp
  qed
qed

lemma binade_eq:
  assumes "- 1022 \<le> e" and "e \<le> 1023"
    and "e = - 1022 \<or> 2 powi e \<le> \<bar>x\<bar>" and "\<bar>x\<bar> < 2 powi (e + 1)"
  shows "binade x = e"
  unfolding binade_def using assms by (intro binadeFrom_eq) auto

lemma binadeFrom_range: "e0 \<le> binadeFrom n e0 x \<and> binadeFrom n e0 x \<le> e0 + int n"
proof (induction n arbitrary: e0)
  case 0
  show ?case by simp
next
  case (Suc n)
  from Suc [of "e0 + 1"] show ?case by simp
qed

lemma binadeFrom_lower:
  "e0 < binadeFrom n e0 x \<Longrightarrow> 2 powi (binadeFrom n e0 x) \<le> \<bar>x\<bar>"
proof (induction n arbitrary: e0)
  case 0
  then show ?case by simp
next
  case (Suc n)
  show ?case
  proof (cases "\<bar>x\<bar> < 2 powi (e0 + 1)")
    case True
    with Suc.prems show ?thesis by simp
  next
    case False
    then have eq: "binadeFrom (Suc n) e0 x = binadeFrom n (e0 + 1) x" by simp
    show ?thesis
    proof (cases "e0 + 1 < binadeFrom n (e0 + 1) x")
      case True
      from Suc.IH [OF this] eq show ?thesis by simp
    next
      case False
      with binadeFrom_range [of "e0 + 1" n x] have "binadeFrom n (e0 + 1) x = e0 + 1" by simp
      with eq \<open>\<not> \<bar>x\<bar> < 2 powi (e0 + 1)\<close> show ?thesis by simp
    qed
  qed
qed

lemma binadeFrom_upper:
  "binadeFrom n e0 x < e0 + int n \<Longrightarrow> \<bar>x\<bar> < 2 powi (binadeFrom n e0 x + 1)"
proof (induction n arbitrary: e0)
  case 0
  then show ?case by simp
next
  case (Suc n)
  show ?case
  proof (cases "\<bar>x\<bar> < 2 powi (e0 + 1)")
    case True
    then show ?thesis by simp
  next
    case False
    then have eq: "binadeFrom (Suc n) e0 x = binadeFrom n (e0 + 1) x" by simp
    with Suc.prems have "binadeFrom n (e0 + 1) x < e0 + 1 + int n" by simp
    from Suc.IH [OF this] eq show ?thesis by simp
  qed
qed

lemma binade_spec:
  "- 1022 \<le> binade x" "binade x \<le> 1023"
  "binade x = - 1022 \<or> 2 powi (binade x) \<le> \<bar>x\<bar>"
  "binade x = 1023 \<or> \<bar>x\<bar> < 2 powi (binade x + 1)"
proof -
  show "- 1022 \<le> binade x" "binade x \<le> 1023"
    using binadeFrom_range [of "- 1022" 2045 x] by (simp_all add: binade_def)
  show "binade x = - 1022 \<or> 2 powi (binade x) \<le> \<bar>x\<bar>"
    using binadeFrom_lower [of "- 1022" 2045 x] binadeFrom_range [of "- 1022" 2045 x]
    unfolding binade_def by linarith
  show "binade x = 1023 \<or> \<bar>x\<bar> < 2 powi (binade x + 1)"
    using binadeFrom_upper [of 2045 "- 1022" x] binadeFrom_range [of "- 1022" 2045 x]
    unfolding binade_def by (cases "binadeFrom 2045 (- 1022) x = 1023") simp_all
qed

subsection \<open>Rounding to the nearest integer\<close>

lemma roundHalfEven_near: "\<bar>y - of_int m\<bar> < 1 / 2 \<Longrightarrow> roundHalfEven y = m"
proof -
  assume near: "\<bar>y - of_int m\<bar> < 1 / 2"
  consider "of_int m \<le> y" | "y < of_int m" by linarith
  then show ?thesis
  proof cases
    case 1
    with near have "\<lfloor>y\<rfloor> = m" by (intro floor_unique) linarith+
    with near 1 show ?thesis by (simp add: roundHalfEven_def Let_def)
  next
    case 2
    with near have f: "\<lfloor>y\<rfloor> = m - 1" by (intro floor_unique) (simp, linarith)+
    with near 2 show ?thesis by (simp add: roundHalfEven_def Let_def)
  qed
qed

lemma roundHalfEven_tie:
  assumes "\<bar>y - of_int m\<bar> = 1 / 2" and "even m"
  shows "roundHalfEven y = m"
proof -
  consider "y = of_int m + 1 / 2" | "y = of_int m - 1 / 2"
    using assms(1) by linarith
  then show ?thesis
  proof cases
    case 1
    then have "\<lfloor>y\<rfloor> = m" by (intro floor_unique) simp_all
    with 1 assms(2) show ?thesis by (simp add: roundHalfEven_def Let_def)
  next
    case 2
    then have "\<lfloor>y\<rfloor> = m - 1" by (intro floor_unique) simp_all
    with 2 assms(2) show ?thesis by (simp add: roundHalfEven_def Let_def)
  qed
qed

lemma roundHalfEven_eq:
  assumes "\<bar>y - of_int m\<bar> < 1 / 2 \<or> \<bar>y - of_int m\<bar> = 1 / 2 \<and> even m"
  shows "roundHalfEven y = m"
  using assms roundHalfEven_near roundHalfEven_tie by blast

lemma roundHalfEven_bound: "\<bar>of_int (roundHalfEven y) - y\<bar> \<le> 1 / 2"
proof -
  have "of_int \<lfloor>y\<rfloor> \<le> y" "y < of_int \<lfloor>y\<rfloor> + 1" by linarith+
  then show ?thesis
    by (auto simp: roundHalfEven_def Let_def)
qed

subsection \<open>Certificates for \<open>round64\<close>\<close>

text \<open>
  \<open>round64 x\<close> is \<open>m / 2 ^ n\<close> when \<open>x * 2 ^ n\<close> lies in the range of a 53-bit
  significand (or \<open>n\<close> is 1074, the subnormal case) and \<open>m\<close> is the integer nearest to
  it, the even one at a tie. With such a certificate the value of a rounding is checked
  by exact arithmetic on numerals.
\<close>

lemma two_powi_neg: "(2::real) powi (- int n) = 1 / 2 ^ n"
  by (simp add: power_int_minus field_simps)

lemma two_powi_nat: "(2::real) powi (int n) = 2 ^ n"
  by simp

lemma two_powi_diff: "(2::real) powi (a - b) = 2 powi a / 2 powi b"
  by (simp add: power_int_diff)

lemma two_powi_52: "(2::real) powi e = 2 powi (e - 52) * 2 ^ 52"
proof -
  have "(2::real) powi (e - 52 + 52) = 2 powi (e - 52) * 2 powi 52"
    by (rule power_int_add) simp
  moreover have "(2::real) powi 52 = 2 ^ 52"
    using two_powi_nat [of 52] by simp
  ultimately show ?thesis by simp
qed

lemma two_powi_53: "(2::real) powi (e + 1) = 2 powi (e - 52) * 2 ^ 53"
proof -
  have "(2::real) powi (e - 52 + 53) = 2 powi (e - 52) * 2 powi 53"
    by (rule power_int_add) simp
  moreover have "e - 52 + 53 = e + 1" by simp
  moreover have "(2::real) powi 53 = 2 ^ 53"
    using two_powi_nat [of 53] by simp
  ultimately show ?thesis by (simp only:)
qed

lemma round64_grid:
  assumes "- 1022 \<le> e" and "e \<le> 1023"
    and "e = - 1022 \<or> 2 powi e \<le> \<bar>x\<bar>" and "\<bar>x\<bar> < 2 powi (e + 1)"
    and "\<bar>x / 2 powi (e - 52) - of_int m\<bar> < 1 / 2
         \<or> \<bar>x / 2 powi (e - 52) - of_int m\<bar> = 1 / 2 \<and> even m"
    and "\<bar>real_of_int m * 2 powi (e - 52)\<bar> < 2 ^ 1024"
  shows "round64 x = Fin (of_int m * 2 powi (e - 52))"
proof -
  have b: "binade x = e"
    using assms(1-4) by (intro binade_eq) simp_all
  have m: "roundHalfEven (x / 2 powi (e - 52)) = m"
    using assms(5) by (rule roundHalfEven_eq)
  from assms(6) show ?thesis
    by (simp add: round64_def b m Let_def)
qed

lemma int_bound_of_real:
  fixes m :: int
  assumes "\<bar>real_of_int m\<bar> < 2 ^ k + 1 / 2"
  shows "\<bar>real_of_int m\<bar> \<le> 2 ^ k"
proof -
  from assms have "real_of_int \<bar>m\<bar> < real_of_int (2 ^ k + 1)" by simp
  then have "\<bar>m\<bar> < 2 ^ k + 1" by (simp only: of_int_less_iff)
  then have "\<bar>m\<bar> \<le> 2 ^ k" by simp
  then have "real_of_int \<bar>m\<bar> \<le> real_of_int (2 ^ k)" by (simp only: of_int_le_iff)
  then show ?thesis by simp
qed

lemma int_bound_of_real_lower:
  fixes m :: int
  assumes "2 ^ k - 1 / 2 \<le> \<bar>real_of_int m\<bar>"
  shows "2 ^ k \<le> \<bar>real_of_int m\<bar>"
proof -
  from assms have "real_of_int (2 ^ k - 1) < real_of_int \<bar>m\<bar>" by simp
  then have "2 ^ k - 1 < \<bar>m\<bar>" by (simp only: of_int_less_iff)
  then have "2 ^ k \<le> \<bar>m\<bar>" by simp
  then have "real_of_int (2 ^ k) \<le> real_of_int \<bar>m\<bar>" by (simp only: of_int_le_iff)
  then show ?thesis by simp
qed

lemma round64_cert:
  fixes n :: nat
  assumes "n \<le> 1074"
    and "r = of_int m / 2 ^ n"
    and "n = 1074 \<or> 2 ^ 52 \<le> \<bar>x\<bar> * 2 ^ n"
    and "\<bar>x\<bar> * 2 ^ n < 2 ^ 53"
    and "\<bar>x * 2 ^ n - of_int m\<bar> < 1 / 2
         \<or> \<bar>x * 2 ^ n - of_int m\<bar> = 1 / 2 \<and> even m"
  shows "round64 x = Fin r"
proof -
  define e where "e = 52 - int n"
  have q: "2 powi (e - 52) = (1 / 2 ^ n :: real)"
    by (simp add: e_def two_powi_neg)
  have pe: "(2::real) powi e = 2 ^ 52 / 2 ^ n"
    unfolding e_def two_powi_diff by simp
  have pe1: "(2::real) powi (e + 1) = 2 ^ 53 / 2 ^ n"
    using pe by (simp add: two_powi_Suc)
  have "\<bar>x * 2 ^ n - of_int m\<bar> \<le> 1 / 2"
    using assms(5) by linarith
  moreover have "\<bar>x * 2 ^ n\<bar> < 2 ^ 53"
    using assms(4) by (simp add: abs_mult)
  ultimately have "\<bar>real_of_int m\<bar> < 2 ^ 53 + 1 / 2" by linarith
  then have "\<bar>real_of_int m\<bar> \<le> 2 ^ 53" by (rule int_bound_of_real)
  then have "\<bar>real_of_int m\<bar> * 2 powi (e - 52) \<le> 2 ^ 53 * 2 powi (e - 52)"
    by (intro mult_right_mono) simp_all
  also have "\<dots> = 2 powi (e + 1)"
    by (simp add: two_powi_53 [of e] mult.commute)
  also have "\<dots> \<le> 2 powi 1023"
    by (intro two_powi_mono) (simp add: e_def)
  also have "\<dots> < 2 ^ 1024"
    by simp
  finally have fin: "\<bar>real_of_int m * 2 powi (e - 52)\<bar> < 2 ^ 1024"
    by (simp add: abs_mult)
  have "round64 x = Fin (of_int m * 2 powi (e - 52))"
  proof (rule round64_grid [OF _ _ _ _ _ fin])
    show "- 1022 \<le> e" "e \<le> 1023"
      using assms(1) by (simp_all add: e_def)
    show "e = - 1022 \<or> 2 powi e \<le> \<bar>x\<bar>"
    proof (cases "n = 1074")
      case True
      then show ?thesis by (simp add: e_def)
    next
      case False
      with assms(3) have "2 ^ 52 \<le> \<bar>x\<bar> * 2 ^ n" by simp
      then have "2 ^ 52 / 2 ^ n \<le> \<bar>x\<bar>" by (simp add: field_simps)
      then show ?thesis by (simp only: pe simp_thms)
    qed
    show "\<bar>x\<bar> < 2 powi (e + 1)"
    proof -
      from assms(4) have "\<bar>x\<bar> < 2 ^ 53 / 2 ^ n" by (simp add: field_simps)
      then show ?thesis by (simp only: pe1)
    qed
    show "\<bar>x / 2 powi (e - 52) - of_int m\<bar> < 1 / 2
         \<or> \<bar>x / 2 powi (e - 52) - of_int m\<bar> = 1 / 2 \<and> even m"
      using assms(5) by (simp add: q)
  qed
  then show ?thesis
    by (simp add: q assms(2))
qed

lemma round64_sqrt_cert:
  fixes n :: nat
  assumes "n \<le> 1074"
    and "r = of_int m / 2 ^ n"
    and "0 \<le> a" and "1 \<le> m"
    and "n = 1074 \<or> (2 ^ 52)\<^sup>2 \<le> a * (2 ^ n)\<^sup>2"
    and "a * (2 ^ n)\<^sup>2 < (2 ^ 53)\<^sup>2"
    and "(of_int m - 1 / 2)\<^sup>2 < a * (2 ^ n)\<^sup>2"
    and "a * (2 ^ n)\<^sup>2 < (of_int m + 1 / 2)\<^sup>2"
  shows "round64 (sqrt a) = Fin r"
proof -
  let ?s = "sqrt a * 2 ^ n"
  have s: "?s = sqrt (a * (2 ^ n)\<^sup>2)"
    by (simp add: real_sqrt_mult)
  have nonneg: "0 \<le> ?s" using assms(3) by simp
  have lo: "of_int m - 1 / 2 < ?s"
    unfolding s using assms(4,7) by (intro real_less_rsqrt) simp_all
  have hi: "?s < of_int m + 1 / 2"
    unfolding s using assms(4,8) by (intro real_less_lsqrt) simp_all
  have up: "?s < 2 ^ 53"
    unfolding s using assms(6) by (intro real_less_lsqrt) simp_all
  have low: "n = 1074 \<or> 2 ^ 52 \<le> ?s"
    unfolding s using assms(5) by (auto intro: real_le_rsqrt)
  show ?thesis
  proof (rule round64_cert [OF assms(1,2)])
    show "n = 1074 \<or> 2 ^ 52 \<le> \<bar>sqrt a\<bar> * 2 ^ n"
      using low assms(3) by simp
    show "\<bar>sqrt a\<bar> * 2 ^ n < 2 ^ 53"
      using up assms(3) by simp
    show "\<bar>sqrt a * 2 ^ n - of_int m\<bar> < 1 / 2
         \<or> \<bar>sqrt a * 2 ^ n - of_int m\<bar> = 1 / 2 \<and> even m"
      using lo hi by linarith
  qed
qed

subsection \<open>Rounding is idempotent\<close>

lemma round64_exact:
  assumes "- 1022 \<le> e" and "e \<le> 1023"
    and "e = - 1022 \<or> 2 ^ 52 \<le> \<bar>real_of_int m\<bar>" and "\<bar>real_of_int m\<bar> < 2 ^ 53"
  shows "round64 (of_int m * 2 powi (e - 52)) = Fin (of_int m * 2 powi (e - 52))"
proof -
  let ?q = "(2::real) powi (e - 52)"
  let ?r = "real_of_int m * ?q"
  have abs: "\<bar>?r\<bar> = \<bar>real_of_int m\<bar> * ?q"
    by (simp add: abs_mult)
  show ?thesis
  proof (rule round64_grid [OF assms(1,2)])
    show "e = - 1022 \<or> 2 powi e \<le> \<bar>?r\<bar>"
    proof (cases "e = - 1022")
      case False
      with assms(3) have "2 ^ 52 * ?q \<le> \<bar>real_of_int m\<bar> * ?q"
        by (intro mult_right_mono) simp_all
      then show ?thesis
        by (simp add: abs two_powi_52 [of e] mult.commute)
    qed simp
    have "\<bar>real_of_int m\<bar> * ?q < 2 ^ 53 * ?q"
      using assms(4) by (intro mult_strict_right_mono) simp_all
    then show up: "\<bar>?r\<bar> < 2 powi (e + 1)"
      by (simp add: abs two_powi_53 [of e] mult.commute)
    show "\<bar>?r / ?q - of_int m\<bar> < 1 / 2 \<or> \<bar>?r / ?q - of_int m\<bar> = 1 / 2 \<and> even m"
      by simp
    have "2 powi (e + 1) \<le> (2::real) powi 1024"
      using assms(2) by (intro two_powi_mono) simp
    also have "\<dots> = 2 ^ 1024"
      using two_powi_nat [of 1024] by simp
    finally show "\<bar>?r\<bar> < 2 ^ 1024"
      using up by simp
  qed
qed

lemma round64_idem:
  assumes "round64 x = Fin r"
  shows "round64 r = Fin r"
proof -
  define e where "e = binade x"
  define q :: real where "q = 2 powi (e - 52)"
  define m where "m = roundHalfEven (x / q)"
  have qpos: "0 < q" by (simp add: q_def)
  have fin: "\<bar>real_of_int m * q\<bar> < 2 ^ 1024" and r: "r = of_int m * q"
    using assms by (simp_all add: round64_def Let_def e_def q_def m_def split: if_splits)
  have range: "- 1022 \<le> e" "e \<le> 1023"
    using binade_spec(1,2) [of x] by (simp_all add: e_def)
  have near: "\<bar>real_of_int m - x / q\<bar> \<le> 1 / 2"
    unfolding m_def by (rule roundHalfEven_bound)
  have p52: "2 powi e = q * 2 ^ 52" and p53: "2 powi (e + 1) = q * 2 ^ 53"
    unfolding q_def by (rule two_powi_52 two_powi_53)+
  have absr: "\<bar>real_of_int m * q\<bar> = \<bar>real_of_int m\<bar> * q"
    using qpos by (simp add: abs_mult)
  have upper: "\<bar>real_of_int m\<bar> \<le> 2 ^ 53"
  proof (cases "\<bar>x\<bar> < 2 powi (e + 1)")
    case True
    then have "\<bar>x\<bar> < q * 2 ^ 53" by (simp only: p53)
    then have "\<bar>x / q\<bar> < 2 ^ 53"
      using qpos by (simp add: abs_divide field_simps)
    with near have "\<bar>real_of_int m\<bar> < 2 ^ 53 + 1 / 2" by linarith
    then show ?thesis by (rule int_bound_of_real)
  next
    case False
    with binade_spec(4) [of x] have e: "e = 1023" by (simp add: e_def)
    from False have "q * 2 ^ 53 \<le> \<bar>x\<bar>" by (simp only: p53 not_less)
    then have "2 ^ 53 \<le> \<bar>x / q\<bar>"
      using qpos by (simp add: abs_divide field_simps)
    with near have "2 ^ 53 - 1 / 2 \<le> \<bar>real_of_int m\<bar>" by linarith
    then have "2 ^ 53 \<le> \<bar>real_of_int m\<bar>" by (rule int_bound_of_real_lower)
    then have "2 ^ 53 * q \<le> \<bar>real_of_int m\<bar> * q"
      using qpos by (intro mult_right_mono) simp_all
    moreover have "2 ^ 53 * q = 2 powi (e + 1)"
      by (simp only: p53 mult.commute)
    moreover have "e + 1 = 1024" using e by simp
    moreover have "(2::real) powi 1024 = 2 ^ 1024"
      using two_powi_nat [of 1024] by simp
    ultimately show ?thesis using fin absr by simp
  qed
  have lower: "2 ^ 52 \<le> \<bar>real_of_int m\<bar>" if "e \<noteq> - 1022"
  proof -
    from that binade_spec(3) [of x] have "2 powi e \<le> \<bar>x\<bar>" by (simp add: e_def)
    then have "q * 2 ^ 52 \<le> \<bar>x\<bar>" by (simp only: p52)
    then have "2 ^ 52 \<le> \<bar>x / q\<bar>"
      using qpos by (simp add: abs_divide field_simps)
    with near have "2 ^ 52 - 1 / 2 \<le> \<bar>real_of_int m\<bar>" by linarith
    then show ?thesis by (rule int_bound_of_real_lower)
  qed
  show ?thesis
  proof (cases "\<bar>real_of_int m\<bar> = 2 ^ 53")
    case True
    then have "\<bar>real_of_int m * q\<bar> = 2 ^ 53 * q"
      by (simp only: absr)
    then have "\<bar>real_of_int m * q\<bar> = q * 2 ^ 53"
      by (simp only: mult.commute [of "2 ^ 53" q])
    then have big: "\<bar>real_of_int m * q\<bar> = 2 powi (e + 1)"
      by (simp only: p53)
    have e: "e \<le> 1022"
    proof (rule ccontr)
      assume "\<not> e \<le> 1022"
      then have "1024 \<le> e + 1" by simp
      then have "(2::real) powi 1024 \<le> 2 powi (e + 1)" by (rule two_powi_mono)
      moreover have "(2::real) powi 1024 = 2 ^ 1024"
        using two_powi_nat [of 1024] by simp
      ultimately show False using fin big by simp
    qed
    define h where "h = m div 2"
    have even: "m = 2 * h"
    proof -
      from True have "real_of_int \<bar>m\<bar> = real_of_int (2 ^ 53)" by simp
      then have "\<bar>m\<bar> = 2 ^ 53" by (simp only: of_int_eq_iff)
      then have "even \<bar>m\<bar>" by simp
      then have "even m" by simp
      then show ?thesis by (simp add: h_def)
    qed
    have h: "\<bar>real_of_int h\<bar> = 2 ^ 52"
      using True by (simp add: even abs_mult)
    have q2: "2 powi (e + 1 - 52) = 2 * q"
      using two_powi_Suc [of "e - 52"] by (simp add: q_def algebra_simps)
    have "round64 (of_int h * 2 powi (e + 1 - 52)) = Fin (of_int h * 2 powi (e + 1 - 52))"
      using range e h by (intro round64_exact) simp_all
    then have "round64 (of_int h * (2 * q)) = Fin (of_int h * (2 * q))"
      by (simp only: q2)
    moreover have "r = of_int h * (2 * q)"
      by (simp add: r even)
    ultimately show ?thesis by simp
  next
    case False
    with upper have lt: "\<bar>real_of_int m\<bar> < 2 ^ 53" by simp
    have "round64 (of_int m * 2 powi (e - 52)) = Fin (of_int m * 2 powi (e - 52))"
      using range lt lower by (intro round64_exact) auto
    then show ?thesis
      by (simp add: r q_def)
  qed
qed

lemma isDouble_round64 [simp]: "isDouble (round64 x)"
  by (cases "round64 x") (simp_all add: round64_idem)

section \<open>Properties of the scorer on doubles\<close>

lemma add64_commute: "add64 a b = add64 b a"
  by (cases a; cases b) (simp_all add: add.commute)

lemma add64_zero_left: "isDouble d \<Longrightarrow> add64 (Fin 0) d = d"
  by (cases d) simp_all

lemma isDouble_zero [simp]: "isDouble (Fin 0)"
  by (simp add: round64_exact [of "- 1022" 0, simplified])

lemma isDouble_mul64 [simp]: "isDouble (mul64 a b)"
  by (cases a; cases b) simp_all

lemma isDouble_pow64_2 [simp]: "isDouble (pow64_2 a)"
  by (cases a) simp_all

lemma naiveSum_append:
  "k \<le> length xs \<Longrightarrow> naiveSum (xs @ ys) k = naiveSum xs k"
  by (induction k) (simp_all add: nth_append)

lemma foldl_naiveSum:
  "foldl (\<lambda>sum val. add64 sum (f val)) (Fin 0) xs = naiveSum (map f xs) (length xs)"
proof (induction xs rule: rev_induct)
  case Nil
  show ?case by simp
next
  case (snoc x xs)
  have "naiveSum (map f xs @ [f x]) (length xs) = naiveSum (map f xs) (length xs)"
    by (rule naiveSum_append) simp
  with snoc show ?case
    by (simp add: nth_append)
qed

lemma calculateVolatility64_refines:
  "2 \<le> length s \<Longrightarrow> calculateVolatility64 s = populationStdDev64 s"
  using foldl_naiveSum [of "\<lambda>x. x" s] foldl_naiveSum [of "\<lambda>x. pow64_2 (sub64 x (mean64 s))" s]
  by (simp add: calculateVolatility64_def populationStdDev64_def variance64_def mean64_def Let_def)

lemma calculateVolatility64_exchange:
  assumes "isDouble a" and "isDouble b"
  shows "calculateVolatility64 (b # a # rest) = calculateVolatility64 (a # b # rest)"
proof -
  have sum: "foldl (\<lambda>sum val. add64 sum val) (Fin 0) (b # a # rest)
      = foldl (\<lambda>sum val. add64 sum val) (Fin 0) (a # b # rest)"
    using assms by (simp add: add64_zero_left add64_commute [of a b])
  have acc: "foldl (\<lambda>sum val. add64 sum (f val)) (Fin 0) (b # a # rest)
      = foldl (\<lambda>sum val. add64 sum (f val)) (Fin 0) (a # b # rest)"
    if "\<And>x. isDouble (f x)" for f
    using that by (simp add: add64_zero_left add64_commute [of "f a" "f b"])
  show ?thesis
    unfolding calculateVolatility64_def Let_def sum
    using acc [of "\<lambda>val. pow64_2 (sub64 val _)"] by simp
qed

lemma add64_cert:
  fixes n :: nat
  assumes "n \<le> 1074"
    and "r = of_int m / 2 ^ n"
    and "n = 1074 \<or> 2 ^ 52 \<le> \<bar>a + b\<bar> * 2 ^ n"
    and "\<bar>a + b\<bar> * 2 ^ n < 2 ^ 53"
    and "\<bar>(a + b) * 2 ^ n - of_int m\<bar> < 1 / 2
         \<or> \<bar>(a + b) * 2 ^ n - of_int m\<bar> = 1 / 2 \<and> even m"
  shows "add64 (Fin a) (Fin b) = Fin r"
  using round64_cert [OF assms(1-5)] by simp

lemma sub64_cert:
  fixes n :: nat
  assumes "n \<le> 1074"
    and "r = of_int m / 2 ^ n"
    and "n = 1074 \<or> 2 ^ 52 \<le> \<bar>a - b\<bar> * 2 ^ n"
    and "\<bar>a - b\<bar> * 2 ^ n < 2 ^ 53"
    and "\<bar>(a - b) * 2 ^ n - of_int m\<bar> < 1 / 2
         \<or> \<bar>(a - b) * 2 ^ n - of_int m\<bar> = 1 / 2 \<and> even m"
  shows "sub64 (Fin a) (Fin b) = Fin r"
  using round64_cert [OF assms(1-5)] by simp

lemma mul64_cert:
  fixes n :: nat
  assumes "n \<le> 1074"
    and "r = of_int m / 2 ^ n"
    and "n = 1074 \<or> 2 ^ 52 \<le> \<bar>a * b\<bar> * 2 ^ n"
    and "\<bar>a * b\<bar> * 2 ^ n < 2 ^ 53"
    and "\<bar>(a * b) * 2 ^ n - of_int m\<bar> < 1 / 2
         \<or> \<bar>(a * b) * 2 ^ n - of_int m\<bar> = 1 / 2 \<and> even m"
  shows "mul64 (Fin a) (Fin b) = Fin r"
  using round64_cert [OF assms(1-5)] by simp

lemma div64_cert:
  fixes n :: nat
  assumes "n \<le> 1074"
    and "r = of_int m / 2 ^ n"
    and "n = 1074 \<or> 2 ^ 52 \<le> \<bar>a / b\<bar> * 2 ^ n"
    and "\<bar>a / b\<bar> * 2 ^ n < 2 ^ 53"
    and "\<bar>(a / b) * 2 ^ n - of_int m\<bar> < 1 / 2
         \<or> \<bar>(a / b) * 2 ^ n - of_int m\<bar> = 1 / 2 \<and> even m"
    and "b \<noteq> 0"
  shows "div64 (Fin a) (Fin b) = Fin r"
  using round64_cert [OF assms(1-5)] assms(6) by simp

lemma pow64_2_cert:
  fixes n :: nat
  assumes "n \<le> 1074"
    and "r = of_int m / 2 ^ n"
    and "n = 1074 \<or> 2 ^ 52 \<le> \<bar>a * a\<bar> * 2 ^ n"
    and "\<bar>a * a\<bar> * 2 ^ n < 2 ^ 53"
    and "\<bar>(a * a) * 2 ^ n - of_int m\<bar> < 1 / 2
         \<or> \<bar>(a * a) * 2 ^ n - of_int m\<bar> = 1 / 2 \<and> even m"
  shows "pow64_2 (Fin a) = Fin r"
  using round64_cert [OF assms] by simp

lemma sqrt64_cert:
  fixes n :: nat
  assumes "n \<le> 1074"
    and "r = of_int m / 2 ^ n"
    and "0 \<le> a" and "1 \<le> m"
    and "n = 1074 \<or> (2 ^ 52)\<^sup>2 \<le> a * (2 ^ n)\<^sup>2"
    and "a * (2 ^ n)\<^sup>2 < (2 ^ 53)\<^sup>2"
    and "(of_int m - 1 / 2)\<^sup>2 < a * (2 ^ n)\<^sup>2"
    and "a * (2 ^ n)\<^sup>2 < (of_int m + 1 / 2)\<^sup>2"
  shows "sqrt64 (Fin a) = Fin r"
  using round64_sqrt_cert [OF assms] assms(3) by simp

lemma score64_single:
  "2 \<le> length s \<Longrightarrow>
     calculateWeatherVolatility64 (onlyMetric64 k s)
       = mul64 (calculateVolatility64 s) (weights64 k)"
  by (cases k)
    (simp_all add: calculateWeatherVolatility64_def pushVolatility64_def add64_zero_left
      del: weights64.simps)

lemma score64_three:
  "calculateWeatherVolatility64 (onlyMetric64 Temperature [a, b, c])
     = mul64 (calculateVolatility64 [a, b, c]) (weights64 Temperature)"
  by (rule score64_single) simp

lemma calculateVolatility64_three:
  "calculateVolatility64 [a, b, c] =
     (let mean = div64 (add64 (add64 (add64 (Fin 0) a) b) c) (Fin 3);
          variance =
            div64
              (add64
                (add64 (add64 (Fin 0) (pow64_2 (sub64 a mean))) (pow64_2 (sub64 b mean)))
                (pow64_2 (sub64 c mean)))
              (Fin 3)
      in sqrt64 variance)"
  by (simp add: calculateVolatility64_def Let_def)

text \<open>
  Three evaluations of the scorer, each operation of the run with its certificate:
  three temperatures of 0.1, and the temperatures 34.8, 22.2 and 21.9 in two orders.
\<close>

lemma calculateVolatility64_tenths:
  "calculateVolatility64 [round64 0.1, round64 0.1, round64 0.1] = Fin (4503599627370496 / 2 ^ 108)"
proof -
  have s1: "round64 0.1 = Fin (7205759403792794 / 2 ^ 56)"
    by (rule round64_cert [where n = 56 and m = 7205759403792794]) simp_all
  have s2: "add64 (Fin 0) (Fin (7205759403792794 / 2 ^ 56)) = Fin (7205759403792794 / 2 ^ 56)"
    by (rule add64_cert [where n = 56 and m = 7205759403792794]) simp_all
  have s3: "add64 (Fin (7205759403792794 / 2 ^ 56)) (Fin (7205759403792794 / 2 ^ 56)) = Fin (7205759403792794 / 2 ^ 55)"
    by (rule add64_cert [where n = 55 and m = 7205759403792794]) simp_all
  have s4: "add64 (Fin (7205759403792794 / 2 ^ 55)) (Fin (7205759403792794 / 2 ^ 56)) = Fin (5404319552844596 / 2 ^ 54)"
    by (rule add64_cert [where n = 54 and m = 5404319552844596]) simp_all
  have s5: "div64 (Fin (5404319552844596 / 2 ^ 54)) (Fin 3) = Fin (7205759403792795 / 2 ^ 56)"
    by (rule div64_cert [where n = 56 and m = 7205759403792795]) simp_all
  have s6: "sub64 (Fin (7205759403792794 / 2 ^ 56)) (Fin (7205759403792795 / 2 ^ 56)) = Fin (- 4503599627370496 / 2 ^ 108)"
    by (rule sub64_cert [where n = 108 and m = "- 4503599627370496"]) simp_all
  have s7: "pow64_2 (Fin (- 4503599627370496 / 2 ^ 108)) = Fin (4503599627370496 / 2 ^ 164)"
    by (rule pow64_2_cert [where n = 164 and m = 4503599627370496]) simp_all
  have s8: "add64 (Fin 0) (Fin (4503599627370496 / 2 ^ 164)) = Fin (4503599627370496 / 2 ^ 164)"
    by (rule add64_cert [where n = 164 and m = 4503599627370496]) simp_all
  have s9: "add64 (Fin (4503599627370496 / 2 ^ 164)) (Fin (4503599627370496 / 2 ^ 164)) = Fin (4503599627370496 / 2 ^ 163)"
    by (rule add64_cert [where n = 163 and m = 4503599627370496]) simp_all
  have s10: "add64 (Fin (4503599627370496 / 2 ^ 163)) (Fin (4503599627370496 / 2 ^ 164)) = Fin (6755399441055744 / 2 ^ 163)"
    by (rule add64_cert [where n = 163 and m = 6755399441055744]) simp_all
  have s11: "div64 (Fin (6755399441055744 / 2 ^ 163)) (Fin 3) = Fin (4503599627370496 / 2 ^ 164)"
    by (rule div64_cert [where n = 164 and m = 4503599627370496]) simp_all
  have s12: "sqrt64 (Fin (4503599627370496 / 2 ^ 164)) = Fin (4503599627370496 / 2 ^ 108)"
    by (rule sqrt64_cert [where n = 108 and m = 4503599627370496]) (simp_all add: power2_eq_square)
  show ?thesis
    by (simp only: calculateVolatility64_three Let_def s1 s2 s3 s4 s5 s6 s7 s8 s9 s10 s11 s12)
qed

lemma tenths_weighted:
  "mul64 (Fin (4503599627370496 / 2 ^ 108)) (round64 0.4) = Fin (7205759403792794 / 2 ^ 110)"
  "mul64 (Fin (4503599627370496 / 2 ^ 108)) (round64 0.2) = Fin (7205759403792794 / 2 ^ 111)"
proof -
  have w4: "round64 0.4 = Fin (7205759403792794 / 2 ^ 54)"
    by (rule round64_cert [where n = 54 and m = 7205759403792794]) simp_all
  have w2: "round64 0.2 = Fin (7205759403792794 / 2 ^ 55)"
    by (rule round64_cert [where n = 55 and m = 7205759403792794]) simp_all
  show "mul64 (Fin (4503599627370496 / 2 ^ 108)) (round64 0.4) = Fin (7205759403792794 / 2 ^ 110)"
    unfolding w4 by (rule mul64_cert [where n = 110 and m = 7205759403792794]) simp_all
  show "mul64 (Fin (4503599627370496 / 2 ^ 108)) (round64 0.2) = Fin (7205759403792794 / 2 ^ 111)"
    unfolding w2 by (rule mul64_cert [where n = 111 and m = 7205759403792794]) simp_all
qed

lemma populationStdDev64_tenths:
  "populationStdDev64 [round64 0.1, round64 0.1, round64 0.1] = Fin (4503599627370496 / 2 ^ 108)"
proof -
  have "calculateVolatility64 [round64 0.1, round64 0.1, round64 0.1]
      = populationStdDev64 [round64 0.1, round64 0.1, round64 0.1]"
    by (rule calculateVolatility64_refines) simp
  then show ?thesis
    by (simp only: calculateVolatility64_tenths)
qed

lemma score64_tenths:
  "calculateWeatherVolatility64 (onlyMetric64 Temperature [round64 0.1, round64 0.1, round64 0.1])
     = Fin (7205759403792794 / 2 ^ 110)"
  by (simp only: score64_three calculateVolatility64_tenths weights64.simps tenths_weighted)

lemma score64_readings:
  "calculateWeatherVolatility64 (onlyMetric64 Temperature [round64 34.8, round64 22.2, round64 21.9])
     = Fin (5414817755293234 / 2 ^ 51)"
proof -
  have s1: "round64 34.8 = Fin (4897664594765414 / 2 ^ 47)"
    by (rule round64_cert [where n = 47 and m = 4897664594765414]) simp_all
  have s2: "round64 22.2 = Fin (6248744482976563 / 2 ^ 48)"
    by (rule round64_cert [where n = 48 and m = 6248744482976563]) simp_all
  have s3: "round64 21.9 = Fin (6164301989963366 / 2 ^ 48)"
    by (rule round64_cert [where n = 48 and m = 6164301989963366]) simp_all
  have s4: "add64 (Fin 0) (Fin (4897664594765414 / 2 ^ 47)) = Fin (4897664594765414 / 2 ^ 47)"
    by (rule add64_cert [where n = 47 and m = 4897664594765414]) simp_all
  have s5: "add64 (Fin (4897664594765414 / 2 ^ 47)) (Fin (6248744482976563 / 2 ^ 48)) = Fin (8022036836253696 / 2 ^ 47)"
    by (rule add64_cert [where n = 47 and m = 8022036836253696]) simp_all
  have s6: "add64 (Fin (8022036836253696 / 2 ^ 47)) (Fin (6164301989963366 / 2 ^ 48)) = Fin (5552093915617690 / 2 ^ 46)"
    by (rule add64_cert [where n = 46 and m = 5552093915617690]) simp_all
  have s7: "div64 (Fin (5552093915617690 / 2 ^ 46)) (Fin 3) = Fin (7402791887490253 / 2 ^ 48)"
    by (rule div64_cert [where n = 48 and m = 7402791887490253]) simp_all
  have s8: "sub64 (Fin (4897664594765414 / 2 ^ 47)) (Fin (7402791887490253 / 2 ^ 48)) = Fin (4785074604081150 / 2 ^ 49)"
    by (rule sub64_cert [where n = 49 and m = 4785074604081150]) simp_all
  have s9: "pow64_2 (Fin (4785074604081150 / 2 ^ 49)) = Fin (5084141766836220 / 2 ^ 46)"
    by (rule pow64_2_cert [where n = 46 and m = 5084141766836220]) simp_all
  have s10: "add64 (Fin 0) (Fin (5084141766836220 / 2 ^ 46)) = Fin (5084141766836220 / 2 ^ 46)"
    by (rule add64_cert [where n = 46 and m = 5084141766836220]) simp_all
  have s11: "sub64 (Fin (6248744482976563 / 2 ^ 48)) (Fin (7402791887490253 / 2 ^ 48)) = Fin (- 4616189618054760 / 2 ^ 50)"
    by (rule sub64_cert [where n = 50 and m = "- 4616189618054760"]) simp_all
  have s12: "pow64_2 (Fin (- 4616189618054760 / 2 ^ 50)) = Fin (4731594358506131 / 2 ^ 48)"
    by (rule pow64_2_cert [where n = 48 and m = 4731594358506131]) simp_all
  have s13: "add64 (Fin (5084141766836220 / 2 ^ 46)) (Fin (4731594358506131 / 2 ^ 48)) = Fin (6267040356462753 / 2 ^ 46)"
    by (rule add64_cert [where n = 46 and m = 6267040356462753]) simp_all
  have s14: "sub64 (Fin (6164301989963366 / 2 ^ 48)) (Fin (7402791887490253 / 2 ^ 48)) = Fin (- 4953959590107548 / 2 ^ 50)"
    by (rule sub64_cert [where n = 50 and m = "- 4953959590107548"]) simp_all
  have s15: "pow64_2 (Fin (- 4953959590107548 / 2 ^ 50)) = Fin (5449355549118305 / 2 ^ 48)"
    by (rule pow64_2_cert [where n = 48 and m = 5449355549118305]) simp_all
  have s16: "add64 (Fin (6267040356462753 / 2 ^ 46)) (Fin (5449355549118305 / 2 ^ 48)) = Fin (7629379243742329 / 2 ^ 46)"
    by (rule add64_cert [where n = 46 and m = 7629379243742329]) simp_all
  have s17: "div64 (Fin (7629379243742329 / 2 ^ 46)) (Fin 3) = Fin (5086252829161553 / 2 ^ 47)"
    by (rule div64_cert [where n = 47 and m = 5086252829161553]) simp_all
  have s18: "sqrt64 (Fin (5086252829161553 / 2 ^ 47)) = Fin (6768522194116542 / 2 ^ 50)"
    by (rule sqrt64_cert [where n = 50 and m = 6768522194116542]) (simp_all add: power2_eq_square)
  have s19: "weights64 Temperature = Fin (7205759403792794 / 2 ^ 54)"
    unfolding weights64.simps by (rule round64_cert [where n = 54 and m = 7205759403792794]) simp_all
  have s20: "mul64 (Fin (6768522194116542 / 2 ^ 50)) (Fin (7205759403792794 / 2 ^ 54)) = Fin (5414817755293234 / 2 ^ 51)"
    by (rule mul64_cert [where n = 51 and m = 5414817755293234]) simp_all
  show ?thesis
    by (simp only: score64_three calculateVolatility64_three Let_def s1 s2 s3 s4 s5 s6 s7 s8 s9 s10 s11 s12 s13 s14 s15 s16 s17 s18 s19 s20)
qed

lemma score64_readings_reordered:
  "calculateWeatherVolatility64 (onlyMetric64 Temperature [round64 34.8, round64 21.9, round64 22.2])
     = Fin (5414817755293233 / 2 ^ 51)"
proof -
  have s1: "round64 34.8 = Fin (4897664594765414 / 2 ^ 47)"
    by (rule round64_cert [where n = 47 and m = 4897664594765414]) simp_all
  have s2: "round64 21.9 = Fin (6164301989963366 / 2 ^ 48)"
    by (rule round64_cert [where n = 48 and m = 6164301989963366]) simp_all
  have s3: "round64 22.2 = Fin (6248744482976563 / 2 ^ 48)"
    by (rule round64_cert [where n = 48 and m = 6248744482976563]) simp_all
  have s4: "add64 (Fin 0) (Fin (4897664594765414 / 2 ^ 47)) = Fin (4897664594765414 / 2 ^ 47)"
    by (rule add64_cert [where n = 47 and m = 4897664594765414]) simp_all
  have s5: "add64 (Fin (4897664594765414 / 2 ^ 47)) (Fin (6164301989963366 / 2 ^ 48)) = Fin (7979815589747097 / 2 ^ 47)"
    by (rule add64_cert [where n = 47 and m = 7979815589747097]) simp_all
  have s6: "add64 (Fin (7979815589747097 / 2 ^ 47)) (Fin (6248744482976563 / 2 ^ 48)) = Fin (5552093915617689 / 2 ^ 46)"
    by (rule add64_cert [where n = 46 and m = 5552093915617689]) simp_all
  have s7: "div64 (Fin (5552093915617689 / 2 ^ 46)) (Fin 3) = Fin (7402791887490252 / 2 ^ 48)"
    by (rule div64_cert [where n = 48 and m = 7402791887490252]) simp_all
  have s8: "sub64 (Fin (4897664594765414 / 2 ^ 47)) (Fin (7402791887490252 / 2 ^ 48)) = Fin (4785074604081152 / 2 ^ 49)"
    by (rule sub64_cert [where n = 49 and m = 4785074604081152]) simp_all
  have s9: "pow64_2 (Fin (4785074604081152 / 2 ^ 49)) = Fin (5084141766836224 / 2 ^ 46)"
    by (rule pow64_2_cert [where n = 46 and m = 5084141766836224]) simp_all
  have s10: "add64 (Fin 0) (Fin (5084141766836224 / 2 ^ 46)) = Fin (5084141766836224 / 2 ^ 46)"
    by (rule add64_cert [where n = 46 and m = 5084141766836224]) simp_all
  have s11: "sub64 (Fin (6164301989963366 / 2 ^ 48)) (Fin (7402791887490252 / 2 ^ 48)) = Fin (- 4953959590107544 / 2 ^ 50)"
    by (rule sub64_cert [where n = 50 and m = "- 4953959590107544"]) simp_all
  have s12: "pow64_2 (Fin (- 4953959590107544 / 2 ^ 50)) = Fin (5449355549118297 / 2 ^ 48)"
    by (rule pow64_2_cert [where n = 48 and m = 5449355549118297]) simp_all
  have s13: "add64 (Fin (5084141766836224 / 2 ^ 46)) (Fin (5449355549118297 / 2 ^ 48)) = Fin (6446480654115798 / 2 ^ 46)"
    by (rule add64_cert [where n = 46 and m = 6446480654115798]) simp_all
  have s14: "sub64 (Fin (6248744482976563 / 2 ^ 48)) (Fin (7402791887490252 / 2 ^ 48)) = Fin (- 4616189618054756 / 2 ^ 50)"
    by (rule sub64_cert [where n = 50 and m = "- 4616189618054756"]) simp_all
  have s15: "pow64_2 (Fin (- 4616189618054756 / 2 ^ 50)) = Fin (4731594358506122 / 2 ^ 48)"
    by (rule pow64_2_cert [where n = 48 and m = 4731594358506122]) simp_all
  have s16: "add64 (Fin (6446480654115798 / 2 ^ 46)) (Fin (4731594358506122 / 2 ^ 48)) = Fin (7629379243742328 / 2 ^ 46)"
    by (rule add64_cert [where n = 46 and m = 7629379243742328]) simp_all
  have s17: "div64 (Fin (7629379243742328 / 2 ^ 46)) (Fin 3) = Fin (5086252829161552 / 2 ^ 47)"
    by (rule div64_cert [where n = 47 and m = 5086252829161552]) simp_all
  have s18: "sqrt64 (Fin (5086252829161552 / 2 ^ 47)) = Fin (6768522194116541 / 2 ^ 50)"
    by (rule sqrt64_cert [where n = 50 and m = 6768522194116541]) (simp_all add: power2_eq_square)
  have s19: "weights64 Temperature = Fin (7205759403792794 / 2 ^ 54)"
    unfolding weights64.simps by (rule round64_cert [where n = 54 and m = 7205759403792794]) simp_all
  have s20: "mul64 (Fin (6768522194116541 / 2 ^ 50)) (Fin (7205759403792794 / 2 ^ 54)) = Fin (5414817755293233 / 2 ^ 51)"
    by (rule mul64_cert [where n = 51 and m = 5414817755293233]) simp_all
  show ?thesis
    by (simp only: score64_three calculateVolatility64_three Let_def s1 s2 s3 s4 s5 s6 s7 s8 s9 s10 s11 s12 s13 s14 s15 s16 s17 s18 s19 s20)
qed

lemma populationStdDev_constant_triple: "populationStdDev [c, c, c] = 0"
  by (simp add: populationStdDev_def populationVariance_def arithmeticMean_def)

lemma round64_tenth: "round64 0.1 = Fin (7205759403792794 / 2 ^ 56)"
  by (rule round64_cert [where n = 56 and m = 7205759403792794]) simp_all

lemma round64_score_readings: "round64 2.404662138430262 = Fin (5414817755293234 / 2 ^ 51)"
  by (rule round64_cert [where n = 51 and m = 5414817755293234]) simp_all

lemma round64_score_readings_reordered:
  "round64 2.4046621384302616 = Fin (5414817755293233 / 2 ^ 51)"
  by (rule round64_cert [where n = 51 and m = 5414817755293233]) simp_all

lemma round64_score_tenths: "round64 (5.551115123125783 / 10 ^ 18) = Fin (7205759403792794 / 2 ^ 110)"
  by (rule round64_cert [where n = 110 and m = 7205759403792794]) simp_all







section \<open>Properties of the calendar arithmetic\<close>

lemma div_bounds:
  fixes n k :: int
  assumes "0 < k"
  shows "k * (n div k) \<le> n" and "n < k * (n div k) + k"
proof -
  have "k * (n div k) + n mod k = n" by simp
  moreover have "0 \<le> n mod k" "n mod k < k" using assms by simp_all
  ultimately show "k * (n div k) \<le> n" and "n < k * (n div k) + k" by linarith+
qed

lemma DayFromYear_estimate:
  "400 * DayFromYear y \<le> 146097 * (y - 1970) + 589"
  "146097 * (y - 1970) - 506 \<le> 400 * DayFromYear y"
proof -
  define a where "a = (y - 1969) div 4"
  define b where "b = (y - 1901) div 100"
  define c where "c = (y - 1601) div 400"
  have a: "4 * a \<le> y - 1969" "y - 1969 < 4 * a + 4"
    using div_bounds [of 4 "y - 1969"] by (simp_all add: a_def)
  have b: "100 * b \<le> y - 1901" "y - 1901 < 100 * b + 100"
    using div_bounds [of 100 "y - 1901"] by (simp_all add: b_def)
  have c: "400 * c \<le> y - 1601" "y - 1601 < 400 * c + 400"
    using div_bounds [of 400 "y - 1601"] by (simp_all add: c_def)
  have D: "DayFromYear y = 365 * (y - 1970) + a - b + c"
    by (simp add: DayFromYear_def a_def b_def c_def)
  show "400 * DayFromYear y \<le> 146097 * (y - 1970) + 589"
    unfolding D using a b c by (simp add: algebra_simps)
  show "146097 * (y - 1970) - 506 \<le> 400 * DayFromYear y"
    unfolding D using a b c by (simp add: algebra_simps)
qed

lemmas DayFromYear_upper = DayFromYear_estimate(1)
lemmas DayFromYear_lower = DayFromYear_estimate(2)

lemma YearFromTime_bounds:
  "DayFromYear (YearFromTime t) \<le> Day t \<and> Day t < DayFromYear (YearFromTime t + 1)"
proof -
  define d where "d = Day t"
  define y where "y = 1970 + (400 * d) div 146097"
  have est: "146097 * (y - 1970) \<le> 400 * d" "400 * d < 146097 * (y - 1970) + 146097"
    using div_bounds [of 146097 "400 * d"] by (simp_all add: y_def)
  have Y: "YearFromTime t =
      (if DayFromYear (y + 1) \<le> d then y + 1 else if d < DayFromYear y then y - 1 else y)"
    by (simp add: YearFromTime_def Let_def d_def y_def)
  have hi: "d < DayFromYear (y + 1 + 1)"
    using DayFromYear_lower [of "y + 1 + 1"] est by (simp add: algebra_simps)
  have lo: "DayFromYear (y - 1) \<le> d"
    using DayFromYear_upper [of "y - 1"] est by (simp add: algebra_simps)
  have pred_succ: "y - 1 + 1 = y" by simp
  consider (up) "DayFromYear (y + 1) \<le> d"
    | (down) "\<not> DayFromYear (y + 1) \<le> d" "d < DayFromYear y"
    | (mid) "\<not> DayFromYear (y + 1) \<le> d" "\<not> d < DayFromYear y"
    by blast
  then have "DayFromYear (YearFromTime t) \<le> d \<and> d < DayFromYear (YearFromTime t + 1)"
  proof cases
    case up
    then have "YearFromTime t = y + 1" by (simp only: Y if_True)
    with up hi show ?thesis by (simp only: simp_thms)
  next
    case down
    then have "YearFromTime t = y - 1" by (simp only: Y if_True if_False)
    with down lo show ?thesis by (simp only: pred_succ simp_thms)
  next
    case mid
    then have "YearFromTime t = y" by (simp only: Y if_False)
    with mid show ?thesis by simp
  qed
  then show ?thesis by (simp only: d_def)
qed

lemma div_step:
  fixes n k :: int
  assumes "0 < k"
  shows "(n + 1) div k = n div k + (if (n + 1) mod k = 0 then 1 else 0)"
proof -
  define q where "q = n div k"
  define r where "r = n mod k"
  have n: "n = k * q + r" by (simp add: q_def r_def)
  have r: "0 \<le> r" "r < k" using assms by (simp_all add: r_def)
  show ?thesis
  proof (cases "r + 1 = k")
    case True
    then have eq: "n + 1 = k * (q + 1) + 0" using n by (simp add: algebra_simps)
    have "(n + 1) div k = q + 1"
      using eq assms by (intro int_div_pos_eq [where r = 0]) simp_all
    moreover have "(n + 1) mod k = 0"
      using eq assms by (intro int_mod_pos_eq [where q = "q + 1"]) simp_all
    ultimately show ?thesis by (simp add: q_def)
  next
    case False
    then have small: "r + 1 < k" using r by simp
    have eq: "n + 1 = k * q + (r + 1)" using n by simp
    have "(n + 1) div k = q"
      using eq small r by (intro int_div_pos_eq [where r = "r + 1"]) simp_all
    moreover have "(n + 1) mod k = r + 1"
      using eq small r by (intro int_mod_pos_eq [where q = q]) simp_all
    ultimately show ?thesis using r by (simp add: q_def)
  qed
qed

lemma DaysInYear_step: "DayFromYear (y + 1) = DayFromYear y + DaysInYear y"
proof -
  have m4: "(y - 1968) mod 4 = y mod 4"
    using mod_mult_self2 [of y 4 "- 492"] by simp
  have m100: "(y - 1900) mod 100 = y mod 100"
    using mod_mult_self2 [of y 100 "- 19"] by simp
  have m400: "(y - 1600) mod 400 = y mod 400"
    using mod_mult_self2 [of y 400 "- 4"] by simp
  have s4: "(y + 1 - 1969) div 4 = (y - 1969) div 4 + (if y mod 4 = 0 then 1 else 0)"
    using div_step [of 4 "y - 1969"] m4 by (simp add: algebra_simps)
  have s100: "(y + 1 - 1901) div 100 = (y - 1901) div 100 + (if y mod 100 = 0 then 1 else 0)"
    using div_step [of 100 "y - 1901"] m100 by (simp add: algebra_simps)
  have s400: "(y + 1 - 1601) div 400 = (y - 1601) div 400 + (if y mod 400 = 0 then 1 else 0)"
    using div_step [of 400 "y - 1601"] m400 by (simp add: algebra_simps)
  have d: "y mod 400 = 0 \<Longrightarrow> y mod 100 = 0" "y mod 100 = 0 \<Longrightarrow> y mod 4 = 0"
    by (auto simp: mod_eq_0_iff_dvd elim: dvd_trans [rotated])
  show ?thesis
    unfolding DayFromYear_def DaysInYear_def s4 s100 s400 using d by auto
qed

lemma DaysInYear_range: "365 \<le> DaysInYear y \<and> DaysInYear y \<le> 366"
  by (simp add: DaysInYear_def)

lemma DayFromYear_mono:
  assumes "y \<le> y'"
  shows "DayFromYear y \<le> DayFromYear y'"
  using assms
proof (induction y' rule: int_ge_induct)
  case base
  show ?case by simp
next
  case (step i)
  have "DayFromYear i \<le> DayFromYear (i + 1)"
    using DaysInYear_range [of i] by (simp add: DaysInYear_step)
  with step.IH show ?case by simp
qed

lemma YearFromTime_unique:
  assumes "DayFromYear y \<le> Day t" and "Day t < DayFromYear (y + 1)"
  shows "YearFromTime t = y"
proof (rule ccontr)
  assume ne: "YearFromTime t \<noteq> y"
  let ?Y = "YearFromTime t"
  have b: "DayFromYear ?Y \<le> Day t" "Day t < DayFromYear (?Y + 1)"
    using YearFromTime_bounds [of t] by simp_all
  from ne consider "?Y + 1 \<le> y" | "y + 1 \<le> ?Y" by linarith
  then show False
  proof cases
    case 1
    from DayFromYear_mono [OF 1] b assms show False by simp
  next
    case 2
    from DayFromYear_mono [OF 2] b assms show False by simp
  qed
qed

lemma MonthFromTime_range: "0 \<le> MonthFromTime t \<and> MonthFromTime t \<le> 11"
  by (simp add: MonthFromTime_def Let_def)

lemma own_month:
  "monthStart (YearFromTime t) (MonthFromTime t) + DateFromTime t - 1 = DayWithinYear t"
proof -
  have l: "(if DaysInYear (YearFromTime t) = 365 then 0 else 1) = InLeapYear t"
    by (simp add: InLeapYear_def)
  show ?thesis
    unfolding monthStart_def DateFromTime_def l Let_def
    using MonthFromTime_range [of t] by (simp split: if_splits)
qed

lemma TimeFromYear_le_iff: "TimeFromYear y \<le> t \<longleftrightarrow> DayFromYear y \<le> Day t"
proof
  have pos: "0 < msPerDay" by (simp add: msPerDay_def)
  {
    assume "TimeFromYear y \<le> t"
    then have "(msPerDay * DayFromYear y) div msPerDay \<le> t div msPerDay"
      unfolding TimeFromYear_def using pos by (rule zdiv_mono1)
    then show "DayFromYear y \<le> Day t"
      using pos by (simp add: Day_def)
  next
    assume "DayFromYear y \<le> Day t"
    then have "msPerDay * DayFromYear y \<le> msPerDay * Day t"
      using pos by simp
    also have "\<dots> \<le> t"
      unfolding Day_def using pos by (rule div_bounds(1))
    finally show "TimeFromYear y \<le> t"
      by (simp add: TimeFromYear_def)
  }
qed

lemma YearFromTime_largest:
  "TimeFromYear (YearFromTime t) \<le> t \<and> (\<forall>y. TimeFromYear y \<le> t \<longrightarrow> y \<le> YearFromTime t)"
proof (intro conjI allI impI)
  show "TimeFromYear (YearFromTime t) \<le> t"
    using YearFromTime_bounds [of t] by (simp add: TimeFromYear_le_iff)
  fix y
  assume "TimeFromYear y \<le> t"
  then have le: "DayFromYear y \<le> Day t"
    by (simp add: TimeFromYear_le_iff)
  show "y \<le> YearFromTime t"
  proof (rule ccontr)
    assume "\<not> y \<le> YearFromTime t"
    then have "YearFromTime t + 1 \<le> y" by simp
    from DayFromYear_mono [OF this] le YearFromTime_bounds [of t] show False by simp
  qed
qed

lemma MakeDay_first_of_month:
  fixes ym mn :: int
  assumes "0 \<le> mn" and "mn \<le> 11" and "MakeDay ym mn 1 = Some day"
  defines "t \<equiv> day * msPerDay"
  shows "YearFromTime t = ym \<and> MonthFromTime t = mn \<and> DateFromTime t = 1"
proof -
  have norm: "mn div 12 = 0" "mn mod 12 = mn"
    using assms(1,2) by simp_all
  have day: "day = DayFromYear ym + monthStart ym mn"
    using assms(3) by (simp add: MakeDay_def norm Let_def split: if_splits)
  have D: "Day t = DayFromYear ym + monthStart ym mn"
    by (simp add: t_def Day_def msPerDay_def day)
  have range: "0 \<le> monthStart ym mn" "monthStart ym mn < DaysInYear ym"
    by (simp_all add: monthStart_def DaysInYear_def Let_def)
  have Y: "YearFromTime t = ym"
    using range by (intro YearFromTime_unique) (simp_all add: D DaysInYear_step)
  have W: "DayWithinYear t = monthStart ym mn"
    by (simp add: DayWithinYear_def D Y)
  have L: "InLeapYear t = (if DaysInYear ym = 365 then 0 else 1)"
    by (simp add: InLeapYear_def Y)
  from assms(1,2) have "mn \<in> {0, 1, 2, 3, 4, 5, 6, 7, 8, 9, 10, 11}"
    by simp presburger
  then have M: "MonthFromTime t = mn"
    unfolding MonthFromTime_def W L monthStart_def Let_def
    by (elim insertE emptyE) simp_all
  have "monthStart ym mn + DateFromTime t - 1 = DayWithinYear t"
    using own_month [of t] by (simp only: Y M)
  with W have "DateFromTime t = 1" by simp
  with Y M show ?thesis by simp
qed

section \<open>Properties of the date range picker\<close>

text \<open>
  The clock readings 1706745599999 and 1706745600000 are 2024-01-31T23:59:59.999Z and
  the next millisecond, 2024-02-01T00:00:00.000Z. In a zone at UTC the first is the last
  millisecond of 31 January and the second the first of 1 February.
\<close>

lemma today_end_of_january:
  "setHours (fixedZone 0) (Some 1706745599999) 23 59 59 999 = Some 1706745599999"
  by code_simp

lemma start_begin_of_february:
  "setHours (fixedZone 0) (Some 1706745600000) 0 0 0 0 = Some 1706745600000"
  by code_simp

lemma today_date: "getDate (fixedZone 0) (Some 1706745599999) = Some 31"
  by code_simp

lemma start_setDate: "setDate (fixedZone 0) (Some 1706745600000) (Some 24) = Some 1708732800000"
  by code_simp

text \<open>
  C2: the start of last7days is to be the start of the day 7 calendar days before the
  day of \<open>now\<close>. \<open>applyPreset\<close> reads the clock twice, once for the end and once for the
  start, and takes the day of the month for the start from the first reading but the
  month from the second. When midnight at the end of a month falls between the two
  readings the start is wrong: in a zone at UTC, with the readings
  2024-01-31T23:59:59.999 and 2024-02-01T00:00:00.000, last7days starts at 00:00:00.000
  on 24 February 2024, while the start of the day 7 days before the first reading is
  24 January (1706054400000) and the one 7 days before the second is 25 January
  (1706140800000).
\<close>

theorem preset_start_across_midnight:
  "startDate (fst (applyPreset (fixedZone 0) 1706745599999 1706745600000 ''last7days'' s))
     = Some 1708732800000
   \<and> localFields (fixedZone 0) 1708732800000 = (2024, 1, 24, 0)
   \<and> localFields (fixedZone 0) 1706745599999 = (2024, 0, 31, 86399999)
   \<and> localFields (fixedZone 0) 1706745600000 = (2024, 1, 1, 0)
   \<and> setHours (fixedZone 0) (Some (1706745599999 - 7 * msPerDay)) 0 0 0 0 = Some 1706054400000
   \<and> setHours (fixedZone 0) (Some (1706745600000 - 7 * msPerDay)) 0 0 0 0 = Some 1706140800000"
proof -
  have "localFields (fixedZone 0) 1708732800000 = (2024, 1, 24, 0)"
    by code_simp
  moreover have "localFields (fixedZone 0) 1706745599999 = (2024, 0, 31, 86399999)"
    by code_simp
  moreover have "localFields (fixedZone 0) 1706745600000 = (2024, 1, 1, 0)"
    by code_simp
  moreover have
    "setHours (fixedZone 0) (Some (1706745599999 - 7 * msPerDay)) 0 0 0 0 = Some 1706054400000"
    by code_simp
  moreover have
    "setHours (fixedZone 0) (Some (1706745600000 - 7 * msPerDay)) 0 0 0 0 = Some 1706140800000"
    by code_simp
  ultimately show ?thesis
    by (simp add: applyPreset_def Let_def today_end_of_january start_begin_of_february
        today_date start_setDate)
qed

text \<open>
  C5: the range of a preset is to have its start not after its end. With the same two
  clock readings, last7days hands to \<open>onChange\<close> the start 2024-02-24T00:00:00.000 and
  the end 2024-01-31T23:59:59.999 (UTC): the start is after the end.
\<close>

theorem preset_range_inverted_across_midnight:
  "applyPreset (fixedZone 0) 1706745599999 1706745600000 ''last7days'' s
     = (s\<lparr>startDate := Some 1708732800000, endDate := Some 1706745599999,
          rangePreset := ''last7days''\<rparr>,
        Some (Some 1708732800000, Some 1706745599999))
   \<and> \<not> notAfter (Some 1708732800000) (Some 1706745599999)"
  by (simp add: applyPreset_def Let_def today_end_of_january start_begin_of_february
      today_date start_setDate notAfter_def)

text \<open>
  C4: the start input is to be normalised to the start of the day entered and the end
  input to the end of the day entered. The handlers read the date-only string as
  midnight UTC and then set the hours of the local day of that instant. In a zone at
  UTC-5, where midnight UTC is 19:00 of the day before, entering 2024-03-10 in the start
  input gives the start 2024-03-09, 00:00:00.000 local time, and entering 2024-03-01 in
  the end input gives the end 2024-02-29, 23:59:59.999 local time: each bound is on the
  day before the one entered.
\<close>

theorem custom_range_day_before_west_of_utc:
  "handleStartDateChange (fixedZone (- 18000000)) (DateValue 2024 3 10) s
     = (s\<lparr>startDate := Some 1709960400000, rangePreset := ''custom''\<rparr>,
        (Some 1709960400000, endDate s))
   \<and> localFields (fixedZone (- 18000000)) 1709960400000 = (2024, 2, 9, 0)
   \<and> handleEndDateChange (fixedZone (- 18000000)) (DateValue 2024 3 1) s
     = (s\<lparr>endDate := Some 1709269199999, rangePreset := ''custom''\<rparr>,
        (startDate s, Some 1709269199999))
   \<and> localFields (fixedZone (- 18000000)) 1709269199999 = (2024, 1, 29, 86399999)"
proof -
  have a: "setHours (fixedZone (- 18000000)) (parseDate (DateValue 2024 3 10)) 0 0 0 0
      = Some 1709960400000"
    by code_simp
  have b: "setHours (fixedZone (- 18000000)) (parseDate (DateValue 2024 3 1)) 23 59 59 999
      = Some 1709269199999"
    by code_simp
  have c: "localFields (fixedZone (- 18000000)) 1709960400000 = (2024, 2, 9, 0)"
    "localFields (fixedZone (- 18000000)) 1709269199999 = (2024, 1, 29, 86399999)"
    by code_simp+
  show ?thesis
    unfolding handleStartDateChange_def handleEndDateChange_def Let_def a b c by simp
qed

text \<open>
  C9: every direct edit of either bound is to lead to the state custom. Mounted with the
  prop \<open>"last7days"\<close> (at 2024-03-22T12:38:31Z, in a zone at UTC) the picker shows
  last7days, from 15 March to 22 March. Clearing the start input then runs
  \<open>handleStartDateChange\<close> on the empty string: the start becomes an Invalid Date and the
  preset \<open>'custom'\<close>, and the render of that state throws a \<open>RangeError\<close>, so the
  component is gone instead of showing custom. Clearing the end input does the same.
\<close>

theorem clearing_date_input_throws:
  "DateRangePicker (fixedZone 0) 1711111111111 1711111111111 1711111111112 1711111111112
     (Some ''last7days'')
     = Inr \<lparr>startDate = Some 1710460800000, endDate = Some 1711151999999,
            rangePreset = ''last7days''\<rparr>
   \<and> handleStartDateChange (fixedZone 0) EmptyValue
        \<lparr>startDate = Some 1710460800000, endDate = Some 1711151999999,
         rangePreset = ''last7days''\<rparr>
     = (\<lparr>startDate = None, endDate = Some 1711151999999, rangePreset = ''custom''\<rparr>,
        (None, Some 1711151999999))
   \<and> step (fixedZone 0) 1711111200000 1711111200000 (StartDateInput EmptyValue)
        \<lparr>startDate = Some 1710460800000, endDate = Some 1711151999999,
         rangePreset = ''last7days''\<rparr>
     = Inl RangeError
   \<and> step (fixedZone 0) 1711111200000 1711111200000 (EndDateInput EmptyValue)
        \<lparr>startDate = Some 1710460800000, endDate = Some 1711151999999,
         rangePreset = ''last7days''\<rparr>
     = Inl RangeError"
  by (intro conjI; code_simp)

end
